theory Spec2Isabelle
  imports Complex_Main
begin

section \<open>Python strings\<close>

text \<open>
  A Python \<open>str\<close> is a sequence of Unicode code points. The scan detector applies
  \<open>str.isdigit\<close>, \<open>str.upper\<close> and \<open>str.strip\<close> to the text it has buffered, so there a
  string is a list of code points, and the three Unicode tables behind these methods are
  a parameter: \<open>u_isdigit\<close> (the character has the digit property), \<open>u_upper\<close> (the full
  upper-case mapping of one character, which may be several characters) and
  \<open>u_isspace\<close> (the character is white space).
\<close>

type_synonym ustring = "nat list"

definition ustr :: "string \<Rightarrow> ustring" where
  \<comment> \<open>the code points of an ASCII literal\<close>
  "ustr s = map of_char s"

record unicode =
  u_isdigit :: "nat \<Rightarrow> bool"
  u_upper :: "nat \<Rightarrow> nat list"
  u_isspace :: "nat \<Rightarrow> bool"


text \<open>
  The tables of Unicode for the code points below 256: the digits include the
  superscripts U+00B2, U+00B3 and U+00B9, white space includes U+0085 and U+00A0, and
  the upper-case mapping takes U+00DF to \<open>SS\<close>, U+00B5 to U+039C and U+00FF to U+0178.
  This table is used for concrete runs; above 255 it has no digit, no white space and
  maps every character to itself.
\<close>

definition latin1 :: unicode where
  "latin1 =
     \<lparr>u_isdigit = (\<lambda>c. (48 \<le> c \<and> c \<le> 57) \<or> c = 178 \<or> c = 179 \<or> c = 185),
      u_upper = (\<lambda>c. if 97 \<le> c \<and> c \<le> 122 then [c - 32]
                      else if c = 181 then [924]
                      else if c = 223 then [83, 83]
                      else if c = 255 then [376]
                      else if 224 \<le> c \<and> c \<le> 254 \<and> c \<noteq> 247 then [c - 32]
                      else [c]),
      u_isspace = (\<lambda>c. (9 \<le> c \<and> c \<le> 13) \<or> (28 \<le> c \<and> c \<le> 32) \<or> c = 133 \<or> c = 160)\<rparr>"

definition py_isdigit :: "unicode \<Rightarrow> ustring \<Rightarrow> bool" where
  \<comment> \<open>\<open>str.isdigit()\<close>: false on the empty string\<close>
  "py_isdigit U s \<longleftrightarrow> s \<noteq> [] \<and> list_all (u_isdigit U) s"

definition py_upper :: "unicode \<Rightarrow> ustring \<Rightarrow> ustring" where
  \<comment> \<open>\<open>str.upper()\<close>: character by character\<close>
  "py_upper U s = concat (map (u_upper U) s)"

definition py_strip :: "unicode \<Rightarrow> ustring \<Rightarrow> ustring" where
  \<comment> \<open>\<open>str.strip()\<close>: drops leading and trailing white space\<close>
  "py_strip U s = rev (dropWhile (u_isspace U) (rev (dropWhile (u_isspace U) s)))"

text \<open>
  Printer identifiers and the numerals in them are ASCII text and are lists of
  characters. \<open>int\<close> skips the white space of C around an ASCII numeral: TAB, LF, VT,
  FF, CR and the space.
\<close>

definition c_isspace :: "char \<Rightarrow> bool" where
  "c_isspace c \<longleftrightarrow> c \<in> set [CHR 0x09, CHR 0x0A, CHR 0x0B, CHR 0x0C, CHR 0x0D, CHR '' '']"

definition int_strip :: "string \<Rightarrow> string" where
  "int_strip s = rev (dropWhile c_isspace (rev (dropWhile c_isspace s)))"


section \<open>Scan detector (\<open>hardware/scanner.py\<close>)\<close>

text \<open>
  \<open>ScannerManager._detect_barcode_type\<close>. The first \<open>if\<close> of the source returns from
  inside its \<open>elif\<close> chain only; an all-digit string of another length falls through
  to the CODE39 test. That fall-through is the \<open>None\<close> of the inner expression.
\<close>

definition detect_barcode_type :: "unicode \<Rightarrow> ustring \<Rightarrow> string" where
  "detect_barcode_type U v =
     (case (if py_isdigit U v then
              (let len = length v in
               if len = 13 then Some ''EAN13''
               else if len = 8 then Some ''EAN8''
               else if len = 12 then Some ''UPC-A''
               else if len = 14 then Some ''GTIN-14''
               else None)
            else None) of
        Some r \<Rightarrow> r
      | None \<Rightarrow>
          if length v \<le> 43 \<and>
             list_all (\<lambda>c. c \<in> set (ustr ''0123456789ABCDEFGHIJKLMNOPQRSTUVWXYZ-. $/+%''))
               (py_upper U v)
          then ''CODE39''
          else ''CODE128'')"

text \<open>
  The classification rules in the words of the specification, for comparison with the
  function above: a string of digits of length 13, 8, 12, 14; else a string of at most
  43 characters whose upper-cased characters all lie in the CODE39 alphabet
  \<open>0-9A-Z-. $/+%\<close>; else CODE128. A digit is a character with the digit property.
\<close>

definition code39_alphabet :: "nat \<Rightarrow> bool" where
  "code39_alphabet c \<longleftrightarrow>
     (48 \<le> c \<and> c \<le> 57) \<or> (65 \<le> c \<and> c \<le> 90) \<or>
     c \<in> of_char ` {CHR ''-'', CHR ''.'', CHR '' '', CHR ''$'', CHR ''/'', CHR ''+'', CHR ''%''}"

definition spec_classify :: "unicode \<Rightarrow> ustring \<Rightarrow> string" where
  "spec_classify U v =
     (if list_all (u_isdigit U) v \<and> length v = 13 then ''EAN13''
      else if list_all (u_isdigit U) v \<and> length v = 8 then ''EAN8''
      else if list_all (u_isdigit U) v \<and> length v = 12 then ''UPC-A''
      else if list_all (u_isdigit U) v \<and> length v = 14 then ''GTIN-14''
      else if list_all code39_alphabet (concat (map (u_upper U) v)) \<and> length v \<le> 43
           then ''CODE39''
      else ''CODE128'')"


text \<open>
  The detector's state: the buffer, the time of the last keystroke and the timeout (in
  the unit of the clock). The clock type is left open: the source subtracts and compares
  floating-point seconds, and nothing below depends on more than \<open>-\<close> and \<open><\<close>.
\<close>

record 't scanner =
  buffer :: ustring
  last_keystroke_time :: 't
  timeout :: 't

text \<open>
  What one call of \<open>_on_char\<close> did: the arguments of the call of the callback, if it was
  called; the exception that left \<open>_on_char\<close>, if any; and the state afterwards.
\<close>

record 't step =
  cb_called :: "(ustring \<times> string) option"
  cb_raised :: "string option"
  scanner_after :: "'t scanner"

text \<open>
  \<open>ScannerManager._on_char\<close>, with the reading of the clock (\<open>time.time()\<close>) as the
  argument \<open>now\<close>. The callback returns (\<open>None\<close>) or raises an exception (\<open>Some m\<close>, with
  its text). The source clears the buffer in the statement after the call of the
  callback and has no \<open>finally\<close>: when the callback raises, the exception leaves
  \<open>_on_char\<close> and the buffer is as it was before the call.
\<close>

definition on_char ::
  "unicode \<Rightarrow> (ustring \<Rightarrow> string \<Rightarrow> string option) \<Rightarrow> ('t::{minus,ord}) scanner \<Rightarrow>
   ustring \<Rightarrow> 't \<Rightarrow> 't step" where
  "on_char U callback s ch now =
     (let s1 = (if buffer s \<noteq> [] \<and> now - last_keystroke_time s > timeout s
                then s\<lparr>buffer := []\<rparr> else s);
          s2 = s1\<lparr>last_keystroke_time := now\<rparr>
      in if ch = [10] \<or> ch = [13] then
           (if length (buffer s2) \<ge> 4 then
              (let barcode = py_strip U (buffer s2);
                   barcode_type = detect_barcode_type U barcode
               in case callback barcode barcode_type of
                    Some m \<Rightarrow>
                      \<lparr>cb_called = Some (barcode, barcode_type), cb_raised = Some m,
                       scanner_after = s2\<rparr>
                  | None \<Rightarrow>
                      \<lparr>cb_called = Some (barcode, barcode_type), cb_raised = None,
                       scanner_after = s2\<lparr>buffer := []\<rparr>\<rparr>)
            else \<lparr>cb_called = None, cb_raised = None, scanner_after = s2\<lparr>buffer := []\<rparr>\<rparr>)
         else \<lparr>cb_called = None, cb_raised = None,
               scanner_after = s2\<lparr>buffer := buffer s2 @ ch\<rparr>\<rparr>)"

text \<open>
  A sequence of calls of \<open>_on_char\<close>, one per keystroke with its clock reading; \<open>feed\<close>
  collects the calls of the callback in order and returns the state after the last call.
\<close>

fun feed ::
  "unicode \<Rightarrow> (ustring \<Rightarrow> string \<Rightarrow> string option) \<Rightarrow> ('t::{minus,ord}) scanner \<Rightarrow>
   (ustring \<times> 't) list \<Rightarrow> (ustring \<times> string) list \<times> 't scanner" where
  "feed U callback s [] = ([], s)"
| "feed U callback s ((ch, now) # rest) =
     (let r = on_char U callback s ch now;
          (outs, s') = feed U callback (scanner_after r) rest
      in ((case cb_called r of None \<Rightarrow> [] | Some c \<Rightarrow> [c]) @ outs, s'))"


section \<open>Python numerals: \<open>int(s, base)\<close>, \<open>str(n)\<close> and \<open>format(n, '#06x')\<close>\<close>

datatype value_error =
    InvalidLiteral string
  | UnpackMismatch nat
  | UnknownPrinterType string

datatype py_exception =
    ValueError value_error
  | Raised string

definition digit_value :: "char \<Rightarrow> nat option" where
  \<comment> \<open>the value of a digit character, letters counting from 10 in either case\<close>
  "digit_value c =
     map_of (zip (''0123456789abcdefghijklmnopqrstuvwxyz'' @ ''ABCDEFGHIJKLMNOPQRSTUVWXYZ'')
                 ([0..<36] @ [10..<36])) c"

text \<open>
  The digits of a numeral as \<open>int\<close> reads them: single underscores may separate digits,
  two in a row or one at the end are refused. The flag tells whether the character just
  read was an underscore.
\<close>

fun digits_from :: "nat \<Rightarrow> bool \<Rightarrow> nat \<Rightarrow> string \<Rightarrow> nat option" where
  "digits_from b us acc [] = (if us then None else Some acc)"
| "digits_from b us acc (c # cs) =
     (if c = CHR ''_'' then (if us then None else digits_from b True acc cs)
      else (case digit_value c of
              None \<Rightarrow> None
            | Some d \<Rightarrow> if d < b then digits_from b False (acc * b + d) cs else None))"

text \<open>
  \<open>int(s, base)\<close> for base 10 and 16: surrounding whitespace is dropped, one sign is
  read, in base 16 a prefix \<open>0x\<close> or \<open>0X\<close> (and one underscore after it) is skipped,
  and what remains must be a non-empty run of digits that does not start with an
  underscore. Any other string raises \<open>ValueError\<close>. The limit of the interpreter
  on the length of a decimal numeral (4300 digits by default) is not part of this
  function: the port of a discovered printer is far below it.
\<close>

definition py_int :: "nat \<Rightarrow> string \<Rightarrow> py_exception + int" where
  "py_int base s =
     (let t = int_strip s;
          neg = (take 1 t = ''-'');
          t1 = (if take 1 t = ''-'' \<or> take 1 t = ''+'' then drop 1 t else t);
          t2 = (if base = 16 \<and> (take 2 t1 = ''0x'' \<or> take 2 t1 = ''0X'')
                then (if take 1 (drop 2 t1) = ''_'' then drop 3 t1 else drop 2 t1)
                else t1)
      in if t2 = [] \<or> take 1 t2 = ''_'' then Inl (ValueError (InvalidLiteral s))
         else (case digits_from base False 0 t2 of
                 None \<Rightarrow> Inl (ValueError (InvalidLiteral s))
               | Some n \<Rightarrow> Inr (if neg then - int n else int n)))"

definition digit_char :: "nat \<Rightarrow> char" where
  "digit_char d = ''0123456789abcdef'' ! d"

function hex_digits :: "nat \<Rightarrow> string" where
  "hex_digits n = (if n < 16 then [digit_char n] else hex_digits (n div 16) @ [digit_char (n mod 16)])"
  by pat_completeness auto
termination
  by (relation "measure id") auto

declare hex_digits.simps [simp del]

function dec_digits :: "nat \<Rightarrow> string" where
  "dec_digits n = (if n < 10 then [digit_char n] else dec_digits (n div 10) @ [digit_char (n mod 10)])"
  by pat_completeness auto
termination
  by (relation "measure id") auto

declare dec_digits.simps [simp del]

definition py_str_int :: "int \<Rightarrow> string" where
  \<comment> \<open>\<open>str(n)\<close>, which is also how an f-string renders an integer\<close>
  "py_str_int n = (if n < 0 then ''-'' @ dec_digits (nat (- n)) else dec_digits (nat n))"

definition py_format_06x :: "int \<Rightarrow> string" where
  \<comment> \<open>the format \<open>#06x\<close>: sign, the prefix \<open>0x\<close>, then lower-case hexadecimal
      digits padded with zeros to a total width of 6\<close>
  "py_format_06x n =
     (let sign = (if n < 0 then ''-'' else []);
          ds = hex_digits (nat \<bar>n\<bar>)
      in sign @ ''0x'' @ replicate (6 - (length sign + 2 + length ds)) (CHR ''0'') @ ds)"


section \<open>Python \<open>split\<close> and \<open>rsplit\<close> on a one-character separator\<close>

definition split_once :: "char \<Rightarrow> string \<Rightarrow> string list" where
  \<comment> \<open>\<open>s.split(sep, 1)\<close>\<close>
  "split_once sep s =
     (if sep \<in> set s
      then [takeWhile (\<lambda>c. c \<noteq> sep) s, tl (dropWhile (\<lambda>c. c \<noteq> sep) s)]
      else [s])"

definition rsplit_once :: "char \<Rightarrow> string \<Rightarrow> string list" where
  \<comment> \<open>\<open>s.rsplit(sep, 1)\<close>\<close>
  "rsplit_once sep s =
     (if sep \<in> set s
      then [rev (tl (dropWhile (\<lambda>c. c \<noteq> sep) (rev s))), rev (takeWhile (\<lambda>c. c \<noteq> sep) (rev s))]
      else [s])"

fun split_all :: "char \<Rightarrow> string \<Rightarrow> string list" where
  \<comment> \<open>\<open>s.split(sep)\<close>\<close>
  "split_all sep [] = [[]]"
| "split_all sep (c # cs) =
     (if c = sep then [] # split_all sep cs
      else (case split_all sep cs of
              [] \<Rightarrow> [[c]]
            | a # r \<Rightarrow> (c # a) # r))"


section \<open>Printer identifiers (\<open>hardware/discovery.py\<close>)\<close>

definition ESCPOS_NETWORK_PORT :: int where
  "ESCPOS_NETWORK_PORT = 9100"

text \<open>The parameter dictionaries that \<open>parse_printer_id\<close> returns, one shape per transport.\<close>

datatype params =
    UsbParams (vendor_id: int) (product_id: int)
  | NetworkParams (host: string) (port: int)
  | BluetoothParams (address: string)

text \<open>
  The identifiers as the discovery functions write them: \<open>discover_usb\<close> (line 71),
  \<open>discover_network\<close> and \<open>_discover_mdns\<close> (lines 121 and 177), \<open>discover_bluetooth\<close>
  (line 214).
\<close>

definition usb_printer_id :: "int \<Rightarrow> int \<Rightarrow> string" where
  "usb_printer_id vendor product = ''usb:'' @ py_format_06x vendor @ '':'' @ py_format_06x product"

definition network_printer_id :: "string \<Rightarrow> int \<Rightarrow> string" where
  "network_printer_id ip p = ''network:'' @ ip @ '':'' @ py_str_int p"

definition bluetooth_printer_id :: "string \<Rightarrow> string" where
  "bluetooth_printer_id addr = ''bluetooth:'' @ addr"

text \<open>Writing a parsed identifier back in the format of the discovery function of its transport.\<close>

fun serialize_printer_id :: "string \<times> params \<Rightarrow> string" where
  "serialize_printer_id (ptype, UsbParams v p) = usb_printer_id v p"
| "serialize_printer_id (ptype, NetworkParams h p) = network_printer_id h p"
| "serialize_printer_id (ptype, BluetoothParams a) = bluetooth_printer_id a"

text \<open>
  \<open>parse_printer_id\<close>. The unpacking \<open>vid, pid = rest.split(':')\<close> raises \<open>ValueError\<close>
  unless the split has exactly two parts; \<open>int\<close> raises \<open>ValueError\<close> on a bad numeral.
\<close>

definition parse_printer_id :: "string \<Rightarrow> py_exception + (string \<times> params)" where
  "parse_printer_id printer_id =
     (let parts = split_once (CHR '':'') printer_id;
          ptype = hd parts;
          rest = (if length parts > 1 then parts ! 1 else [])
      in if ptype = ''usb'' then
           (case split_all (CHR '':'') rest of
              [vid, pid] \<Rightarrow>
                (case py_int 16 vid of
                   Inl e \<Rightarrow> Inl e
                 | Inr v \<Rightarrow>
                     (case py_int 16 pid of
                        Inl e \<Rightarrow> Inl e
                      | Inr p \<Rightarrow> Inr (''usb'', UsbParams v p)))
            | ps \<Rightarrow> Inl (ValueError (UnpackMismatch (length ps))))
         else if ptype = ''network'' then
           (let host_port = rsplit_once (CHR '':'') rest;
                h = hd host_port
            in if length host_port > 1
               then (case py_int 10 (host_port ! 1) of
                       Inl e \<Rightarrow> Inl e
                     | Inr p \<Rightarrow> Inr (''network'', NetworkParams h p))
               else Inr (''network'', NetworkParams h ESCPOS_NETWORK_PORT))
         else if ptype = ''bluetooth'' then Inr (''bluetooth'', BluetoothParams rest)
         else Inl (ValueError (UnknownPrinterType ptype)))"


text \<open>The characters that \<open>hex_digits\<close> and \<open>dec_digits\<close> produce.\<close>

definition plain_digit :: "char \<Rightarrow> bool" where
  "plain_digit c \<longleftrightarrow> (\<exists>d<16. c = digit_char d)"

text \<open>
  An identifier round-trips when it parses and writing the parsed parameters back gives
  the identifier itself.
\<close>

definition round_trips :: "string \<Rightarrow> bool" where
  "round_trips printer_id =
     (case parse_printer_id printer_id of
        Inl e \<Rightarrow> False
      | Inr r \<Rightarrow> serialize_printer_id r = printer_id)"


section \<open>JSON values and the wire protocol (\<open>protocol.py\<close>)\<close>

text \<open>
  The values that \<open>json.loads\<close> returns and \<open>json.dumps\<close> accepts. An object is a list
  of key-value pairs read with \<open>map_of\<close>. An event is modelled as the dictionary that
  the event function hands to \<open>json.dumps\<close>.
\<close>

datatype json =
    JNull
  | JBool bool
  | JInt int
  | JFloat real
  | JStr string
  | JList "json list"
  | JObj "(string \<times> json) list"

fun truthy :: "json \<Rightarrow> bool" where
  \<comment> \<open>Python's truth value of a decoded JSON value\<close>
  "truthy JNull = False"
| "truthy (JBool b) = b"
| "truthy (JInt n) = (n \<noteq> 0)"
| "truthy (JFloat x) = (x \<noteq> 0)"
| "truthy (JStr s) = (s \<noteq> [])"
| "truthy (JList xs) = (xs \<noteq> [])"
| "truthy (JObj kvs) = (kvs \<noteq> [])"

definition dict_get :: "(string \<times> json) list \<Rightarrow> string \<Rightarrow> json" where
  \<comment> \<open>\<open>msg.get(key)\<close>: \<open>None\<close> when the key is absent\<close>
  "dict_get msg k = (case map_of msg k of None \<Rightarrow> JNull | Some v \<Rightarrow> v)"

definition dict_get_default :: "(string \<times> json) list \<Rightarrow> string \<Rightarrow> json \<Rightarrow> json" where
  \<comment> \<open>\<open>msg.get(key, default)\<close>\<close>
  "dict_get_default msg k d = (case map_of msg k of None \<Rightarrow> d | Some v \<Rightarrow> v)"

definition ACTIONS :: "string list" where
  "ACTIONS = [''get_status'', ''discover_printers'', ''print'', ''open_drawer'', ''test_print'',
              ''send_notification'', ''toggle_keyboard'']"

definition status_event :: "string \<Rightarrow> json list \<Rightarrow> bool \<Rightarrow> json" where
  "status_event ver printers scanner_active =
     JObj [(''event'', JStr ''status''), (''version'', JStr ver),
           (''printers'', JList printers), (''scanner'', JBool scanner_active)]"

definition printers_event :: "json list \<Rightarrow> json" where
  "printers_event printers = JObj [(''event'', JStr ''printers''), (''printers'', JList printers)]"

definition print_complete_event :: "json \<Rightarrow> json" where
  "print_complete_event job_id = JObj [(''event'', JStr ''print_complete''), (''job_id'', job_id)]"

definition print_error_event :: "json \<Rightarrow> string \<Rightarrow> json" where
  "print_error_event job_id err =
     JObj [(''event'', JStr ''print_error''), (''job_id'', job_id), (''error'', JStr err)]"

definition drawer_opened_event :: "json \<Rightarrow> json" where
  "drawer_opened_event printer_id =
     JObj [(''event'', JStr ''drawer_opened''), (''printer_id'', printer_id)]"

definition keyboard_toggled_event :: "json \<Rightarrow> json" where
  "keyboard_toggled_event visible =
     JObj [(''event'', JStr ''keyboard_toggled''), (''visible'', visible)]"

definition error_event :: "string \<Rightarrow> string \<Rightarrow> json" where
  "error_event message code =
     JObj [(''event'', JStr ''error''), (''message'', JStr message), (''code'', JStr code)]"

text \<open>
  What \<open>json.loads\<close> does on a text: it returns the decoded value, or raises
  \<open>JSONDecodeError\<close>, or raises another \<open>ValueError\<close> (on an integer literal longer
  than the conversion limit), or raises an exception that is not a \<open>ValueError\<close>
  (\<open>RecursionError\<close> on a deeply nested text). Each exception carries its text.
\<close>

datatype decoded =
    Decoded json
  | JSONDecodeError string
  | OtherValueError string
  | OtherError string

text \<open>
  \<open>parse_message\<close>. It catches \<open>JSONDecodeError\<close> only and raises \<open>ValueError\<close> in its
  place; every other exception of the decoder leaves \<open>parse_message\<close> as it is. The
  result \<open>Inl\<close> is the exception that leaves \<open>parse_message\<close>: a \<open>ValueError\<close> with its
  text, or an exception that is not a \<open>ValueError\<close>, with its text.
\<close>

datatype parse_failure =
    ValueErrorText string
  | OtherExceptionText string

definition parse_message ::
  "(string \<Rightarrow> decoded) \<Rightarrow> string \<Rightarrow> parse_failure + (string \<times> json) list" where
  "parse_message loads raw =
     (case loads raw of
        JSONDecodeError m \<Rightarrow> Inl (ValueErrorText (''Invalid JSON: '' @ m))
      | OtherValueError m \<Rightarrow> Inl (ValueErrorText m)
      | OtherError m \<Rightarrow> Inl (OtherExceptionText m)
      | Decoded (JObj msg) \<Rightarrow>
          if map_of msg ''action'' = None \<and> map_of msg ''event'' = None
          then Inl (ValueErrorText
                 (''Message must have '' @ [CHR 0x27] @ ''action'' @ [CHR 0x27] @ '' or '' @
                  [CHR 0x27] @ ''event'' @ [CHR 0x27] @ '' key''))
          else Inr msg
      | Decoded other \<Rightarrow> Inl (ValueErrorText ''Message must be a JSON object''))"


section \<open>Command dispatcher (\<open>server.py\<close>)\<close>

text \<open>
  The global state of the server that the handlers read and write: the printer cache of
  the \<open>PrinterManager\<close> and the scanner manager (\<open>None\<close> when there is none, otherwise
  whether it is running).
\<close>

record server_state =
  cached_printers :: "json list"
  scanner_manager :: "bool option"

definition scanner_active :: "server_state \<Rightarrow> bool" where
  \<comment> \<open>\<open>scanner_manager is not None and scanner_manager.is_running\<close>\<close>
  "scanner_active st = (case scanner_manager st of None \<Rightarrow> False | Some running \<Rightarrow> running)"

text \<open>
  The blocking operations that the handlers hand to \<open>loop.run_in_executor\<close>, and the
  collaborators of the dispatcher: the JSON decoder, \<open>str\<close> on a decoded value (for the
  f-string of the unknown-action message), the version, the identifier that
  \<open>generate_job_id\<close> returns, the result of \<open>discover_all\<close>, and the outcome of each
  submitted operation (\<open>None\<close> when it returns, \<open>Some m\<close> when it raises an exception
  whose \<open>str\<close> is \<open>m\<close>).
\<close>

datatype task =
    DiscoverAll
  | PrintDocument json json json
  | OpenDrawer json
  | TestPrint json
  | ShowNotification json json
  | ToggleKeyboard json

record env =
  json_loads :: "string \<Rightarrow> decoded"
  py_str :: "json \<Rightarrow> string"
  version :: string
  generate_job_id :: string
  discover_all :: "json list"
  run_task :: "task \<Rightarrow> string option"

text \<open>
  What a handler did: the events sent on the originating connection, in order; the
  operations submitted to the executor; the exception that left the handler, if any;
  and the state afterwards.
\<close>

record outcome =
  sent :: "json list"
  submitted :: "task list"
  raised :: "string option"
  state_after :: server_state

definition handle_get_status :: "env \<Rightarrow> server_state \<Rightarrow> outcome" where
  "handle_get_status e st =
     \<lparr>sent = [status_event (version e) (cached_printers st) (scanner_active st)],
      submitted = [], raised = None, state_after = st\<rparr>"

definition handle_discover_printers :: "env \<Rightarrow> server_state \<Rightarrow> outcome" where
  "handle_discover_printers e st =
     (case run_task e DiscoverAll of
        Some m \<Rightarrow> \<lparr>sent = [], submitted = [DiscoverAll], raised = Some m, state_after = st\<rparr>
      | None \<Rightarrow>
          (let printers = discover_all e
           in \<lparr>sent = [printers_event printers], submitted = [DiscoverAll], raised = None,
               state_after = st\<lparr>cached_printers := printers\<rparr>\<rparr>))"

definition handle_print :: "env \<Rightarrow> server_state \<Rightarrow> (string \<times> json) list \<Rightarrow> outcome" where
  "handle_print e st msg =
     (let printer_id = dict_get msg ''printer_id'';
          data = dict_get_default msg ''data'' (JObj []);
          job_id = (if truthy (dict_get msg ''job_id'') then dict_get msg ''job_id''
                    else JStr (generate_job_id e));
          document_type = dict_get_default msg ''document_type'' (JStr ''receipt'')
      in if \<not> truthy printer_id then
           \<lparr>sent = [print_error_event job_id ''No printer_id specified''],
            submitted = [], raised = None, state_after = st\<rparr>
         else
           (case run_task e (PrintDocument printer_id document_type data) of
              None \<Rightarrow>
                \<lparr>sent = [print_complete_event job_id],
                 submitted = [PrintDocument printer_id document_type data],
                 raised = None, state_after = st\<rparr>
            | Some m \<Rightarrow>
                \<lparr>sent = [print_error_event job_id m],
                 submitted = [PrintDocument printer_id document_type data],
                 raised = None, state_after = st\<rparr>))"

definition handle_open_drawer :: "env \<Rightarrow> server_state \<Rightarrow> (string \<times> json) list \<Rightarrow> outcome" where
  "handle_open_drawer e st msg =
     (let printer_id = dict_get msg ''printer_id''
      in if \<not> truthy printer_id then
           \<lparr>sent = [error_event ''No printer_id specified'' ''missing_param''],
            submitted = [], raised = None, state_after = st\<rparr>
         else
           (case run_task e (OpenDrawer printer_id) of
              None \<Rightarrow>
                \<lparr>sent = [drawer_opened_event printer_id], submitted = [OpenDrawer printer_id],
                 raised = None, state_after = st\<rparr>
            | Some m \<Rightarrow>
                \<lparr>sent = [error_event (''Drawer error: '' @ m) ''drawer_error''],
                 submitted = [OpenDrawer printer_id], raised = None, state_after = st\<rparr>))"

definition handle_test_print :: "env \<Rightarrow> server_state \<Rightarrow> (string \<times> json) list \<Rightarrow> outcome" where
  "handle_test_print e st msg =
     (let printer_id = dict_get msg ''printer_id'';
          job_id = JStr (generate_job_id e)
      in if \<not> truthy printer_id then
           \<lparr>sent = [print_error_event job_id ''No printer_id specified''],
            submitted = [], raised = None, state_after = st\<rparr>
         else
           (case run_task e (TestPrint printer_id) of
              None \<Rightarrow>
                \<lparr>sent = [print_complete_event job_id], submitted = [TestPrint printer_id],
                 raised = None, state_after = st\<rparr>
            | Some m \<Rightarrow>
                \<lparr>sent = [print_error_event job_id m], submitted = [TestPrint printer_id],
                 raised = None, state_after = st\<rparr>))"

definition handle_send_notification ::
  "env \<Rightarrow> server_state \<Rightarrow> (string \<times> json) list \<Rightarrow> outcome" where
  "handle_send_notification e st msg =
     (let title = dict_get_default msg ''title'' (JStr ''ERPlora'');
          body = dict_get_default msg ''body'' (JStr [])
      in case run_task e (ShowNotification title body) of
           None \<Rightarrow>
             \<lparr>sent = [], submitted = [ShowNotification title body],
              raised = None, state_after = st\<rparr>
         | Some m \<Rightarrow>
             \<lparr>sent = [error_event (''Notification error: '' @ m) ''notification_error''],
              submitted = [ShowNotification title body], raised = None, state_after = st\<rparr>)"

definition handle_toggle_keyboard ::
  "env \<Rightarrow> server_state \<Rightarrow> (string \<times> json) list \<Rightarrow> outcome" where
  "handle_toggle_keyboard e st msg =
     (let visible = dict_get_default msg ''visible'' (JBool True)
      in case run_task e (ToggleKeyboard visible) of
           None \<Rightarrow>
             \<lparr>sent = [keyboard_toggled_event visible], submitted = [ToggleKeyboard visible],
              raised = None, state_after = st\<rparr>
         | Some m \<Rightarrow>
             \<lparr>sent = [error_event (''Keyboard error: '' @ m) ''keyboard_error''],
              submitted = [ToggleKeyboard visible], raised = None, state_after = st\<rparr>)"

text \<open>
  \<open>handle_message\<close>: parse, then route on the value of \<open>action\<close>. Only \<open>ValueError\<close>
  is caught around \<open>parse_message\<close>; any other exception leaves \<open>handle_message\<close>.
\<close>

definition handle_message :: "env \<Rightarrow> server_state \<Rightarrow> string \<Rightarrow> outcome" where
  "handle_message e st raw =
     (case parse_message (json_loads e) raw of
        Inl (ValueErrorText m) \<Rightarrow>
          \<lparr>sent = [error_event m ''parse_error''], submitted = [], raised = None,
           state_after = st\<rparr>
      | Inl (OtherExceptionText m) \<Rightarrow>
          \<lparr>sent = [], submitted = [], raised = Some m, state_after = st\<rparr>
      | Inr msg \<Rightarrow>
          (let action = dict_get msg ''action''
           in if action = JStr ''get_status'' then handle_get_status e st
              else if action = JStr ''discover_printers'' then handle_discover_printers e st
              else if action = JStr ''print'' then handle_print e st msg
              else if action = JStr ''open_drawer'' then handle_open_drawer e st msg
              else if action = JStr ''test_print'' then handle_test_print e st msg
              else if action = JStr ''send_notification'' then handle_send_notification e st msg
              else if action = JStr ''toggle_keyboard'' then handle_toggle_keyboard e st msg
              else \<lparr>sent = [error_event (''Unknown action: '' @ py_str e action) ''unknown_action''],
                    submitted = [], raised = None, state_after = st\<rparr>))"

text \<open>
  The receive loop of \<open>websocket_endpoint\<close> (\<open>while True\<close>, lines 135 to 142), over the
  texts that the client sends before it disconnects. The \<open>try\<close> is around the loop: an
  exception that leaves \<open>handle_message\<close> ends the loop, and the texts after it are not
  read. The result is the events sent, the state afterwards and the texts left unread.
\<close>

fun websocket_loop ::
  "env \<Rightarrow> server_state \<Rightarrow> string list \<Rightarrow> json list \<times> server_state \<times> string list" where
  "websocket_loop e st [] = ([], st, [])"
| "websocket_loop e st (raw # rest) =
     (let r = handle_message e st raw
      in case raised r of
           Some m \<Rightarrow> (sent r, state_after r, rest)
         | None \<Rightarrow>
             (let (events, st', unread) = websocket_loop e (state_after r) rest
              in (sent r @ events, st', unread)))"

text \<open>\<open>health_check\<close>: the dictionary returned for \<open>GET /status\<close>.\<close>

definition health_check :: "string \<Rightarrow> server_state \<Rightarrow> (string \<times> json) list" where
  "health_check ver st =
     (let printers = cached_printers st
      in [(''status'', JStr ''ok''), (''version'', JStr ver),
          (''printers'', JInt (int (length printers))),
          (''scanner'', JBool (scanner_active st))])"


section \<open>Broadcast (\<open>server.py\<close>, \<open>server_android.py\<close>)\<close>

text \<open>
  The registry \<open>connections\<close> is a Python set; the list stands for the order in which the
  loop visits it. \<open>send_ok ws\<close> tells whether \<open>ws.send_text(message)\<close> returns (it
  raises an exception otherwise). The loop keeps the list of deliveries and the set
  \<open>disconnected\<close>; \<open>broadcast\<close> returns the deliveries and the registry after
  \<open>difference_update\<close>.
\<close>

fun broadcast_loop ::
  "('c \<Rightarrow> bool) \<Rightarrow> string \<Rightarrow> 'c list \<Rightarrow> ('c \<times> string) list \<Rightarrow> 'c set \<Rightarrow>
   ('c \<times> string) list \<times> 'c set" where
  "broadcast_loop send_ok message [] delivered disconnected = (delivered, disconnected)"
| "broadcast_loop send_ok message (ws # rest) delivered disconnected =
     (if send_ok ws
      then broadcast_loop send_ok message rest (delivered @ [(ws, message)]) disconnected
      else broadcast_loop send_ok message rest delivered (insert ws disconnected))"

definition broadcast ::
  "('c \<Rightarrow> bool) \<Rightarrow> 'c list \<Rightarrow> string \<Rightarrow> ('c \<times> string) list \<times> 'c list" where
  "broadcast send_ok connections message =
     (let (delivered, disconnected) = broadcast_loop send_ok message connections [] {}
      in (delivered, filter (\<lambda>ws. ws \<notin> disconnected) connections))"


section \<open>Printer connection lifecycle (\<open>discovery.py\<close>, \<open>printer.py\<close>, \<open>drawer.py\<close>)\<close>

text \<open>
  The hardware is seen through the calls made on it. A device tells, from the calls made
  so far and the next call, whether that call raises (\<open>Some m\<close>, an exception whose
  text is \<open>m\<close>) or returns (\<open>None\<close>). A computation takes the trace of calls so far and
  returns its result, or the exception that leaves it, with the trace afterwards. The
  document renderers are outside this development: one call \<open>Render\<close> stands for the
  run of a renderer on the printer.
\<close>

datatype dev_call =
    ImportModule string
  | Open string params
  | SetStyle "(string \<times> string) list"
  | Text string
  | Cut
  | RawBytes string
  | Render string json
  | Close

type_synonym device = "dev_call list \<Rightarrow> dev_call \<Rightarrow> string option"

type_synonym 'a comp = "dev_call list \<Rightarrow> (py_exception + 'a) \<times> dev_call list"

definition dev_do :: "device \<Rightarrow> dev_call \<Rightarrow> unit comp" where
  "dev_do dev c tr = (case dev tr c of None \<Rightarrow> Inr () | Some m \<Rightarrow> Inl (Raised m), tr @ [c])"

definition then_do :: "unit comp \<Rightarrow> 'a comp \<Rightarrow> 'a comp" where
  \<comment> \<open>two statements in sequence: an exception in the first skips the second\<close>
  "then_do f g tr = (case f tr of (Inl e, tr1) \<Rightarrow> (Inl e, tr1) | (Inr u, tr1) \<Rightarrow> g tr1)"

fun do_all :: "unit comp list \<Rightarrow> unit comp" where
  "do_all [] tr = (Inr (), tr)"
| "do_all (f # fs) tr = then_do f (do_all fs) tr"

definition try_finally :: "'a comp \<Rightarrow> unit comp \<Rightarrow> 'a comp" where
  \<comment> \<open>\<open>try: body finally: fin\<close>: the \<open>finally\<close> block runs on every exit of the body;
      an exception that leaves the \<open>finally\<close> block replaces the outcome of the body\<close>
  "try_finally body fin tr =
     (case body tr of
        (r, tr1) \<Rightarrow> (case fin tr1 of (Inl e, tr2) \<Rightarrow> (Inl e, tr2) | (Inr u, tr2) \<Rightarrow> (r, tr2)))"

definition try_except_pass :: "unit comp \<Rightarrow> unit comp" where
  \<comment> \<open>\<open>try: f except Exception: pass\<close>\<close>
  "try_except_pass f tr = (case f tr of (Inl e, tr1) \<Rightarrow> (Inr (), tr1) | (Inr u, tr1) \<Rightarrow> (Inr u, tr1))"

text \<open>\<open>connect_printer\<close>: the import, the parse of the identifier, then the constructor.\<close>

definition connect_printer :: "device \<Rightarrow> string \<Rightarrow> unit comp" where
  "connect_printer dev printer_id tr =
     (case dev_do dev (ImportModule ''escpos.printer'') tr of
        (Inl e, tr1) \<Rightarrow> (Inl e, tr1)
      | (Inr u, tr1) \<Rightarrow>
          (case parse_printer_id printer_id of
             Inl e \<Rightarrow> (Inl e, tr1)
           | Inr (ptype, ps) \<Rightarrow>
               if ptype = ''usb'' then dev_do dev (Open ''Usb'' ps) tr1
               else if ptype = ''network'' then dev_do dev (Open ''Network'' ps) tr1
               else if ptype = ''bluetooth'' then
                 then_do (dev_do dev (ImportModule ''serial'')) (dev_do dev (Open ''Serial'' ps)) tr1
               else (Inl (ValueError (UnknownPrinterType ptype)), tr1)))"

definition renderer_for :: "string \<Rightarrow> string" where
  \<comment> \<open>the \<open>if\<close>/\<open>elif\<close> chain of \<open>print_document\<close> on \<open>document_type\<close>\<close>
  "renderer_for document_type =
     (if document_type = ''receipt'' then ''_print_receipt''
      else if document_type = ''kitchen_order'' then ''_print_kitchen_order''
      else if document_type = ''invoice'' then ''_print_invoice''
      else if document_type = ''delivery_note'' then ''_print_delivery_note''
      else if document_type = ''barcode_label'' then ''_print_barcode_label''
      else if document_type = ''cash_session_report'' then ''_print_cash_report''
      else ''_print_generic'')"

definition print_document_body :: "device \<Rightarrow> string \<Rightarrow> json \<Rightarrow> unit comp" where
  "print_document_body dev document_type data = dev_do dev (Render (renderer_for document_type) data)"

definition print_document :: "device \<Rightarrow> string \<Rightarrow> string \<Rightarrow> json \<Rightarrow> unit comp" where
  "print_document dev printer_id document_type data tr =
     (case connect_printer dev printer_id tr of
        (Inl e, tr1) \<Rightarrow> (Inl e, tr1)
      | (Inr printer, tr1) \<Rightarrow>
          try_finally (print_document_body dev document_type data)
            (try_except_pass (dev_do dev Close)) tr1)"

text \<open>
  \<open>test_print\<close>; \<open>stamp\<close> is the text of \<open>datetime.now().strftime(...)\<close>.
\<close>

definition test_print_calls :: "string \<Rightarrow> string \<Rightarrow> dev_call list" where
  "test_print_calls printer_id stamp =
     [SetStyle [(''align'', ''center'')],
      Text (replicate 32 (CHR ''='') @ [CHR 0x0A]),
      SetStyle [(''align'', ''center''), (''bold'', ''True''), (''double_height'', ''True'')],
      Text (''ERPlora Bridge'' @ [CHR 0x0A]),
      SetStyle [(''align'', ''center''), (''bold'', ''False''), (''double_height'', ''False'')],
      Text (replicate 32 (CHR ''-'') @ [CHR 0x0A]),
      Text (''Test Print OK'' @ [CHR 0x0A]),
      Text (stamp @ [CHR 0x0A]),
      Text (replicate 32 (CHR ''-'') @ [CHR 0x0A]),
      Text (''Printer: '' @ printer_id @ [CHR 0x0A]),
      Text (replicate 32 (CHR ''='') @ [CHR 0x0A]),
      Cut]"

definition test_print_body :: "device \<Rightarrow> string \<Rightarrow> string \<Rightarrow> unit comp" where
  "test_print_body dev printer_id stamp = do_all (map (dev_do dev) (test_print_calls printer_id stamp))"

definition test_print :: "device \<Rightarrow> string \<Rightarrow> string \<Rightarrow> unit comp" where
  "test_print dev printer_id stamp tr =
     (case connect_printer dev printer_id tr of
        (Inl e, tr1) \<Rightarrow> (Inl e, tr1)
      | (Inr printer, tr1) \<Rightarrow>
          try_finally (test_print_body dev printer_id stamp)
            (try_except_pass (dev_do dev Close)) tr1)"

definition KICK_PIN_2 :: string where
  "KICK_PIN_2 = [CHR 0x1b, CHR 0x70, CHR 0x00, CHR 0x19, CHR 0x32]"

definition KICK_PIN_5 :: string where
  "KICK_PIN_5 = [CHR 0x1b, CHR 0x70, CHR 0x01, CHR 0x19, CHR 0x32]"

definition open_drawer_body :: "device \<Rightarrow> int \<Rightarrow> unit comp" where
  "open_drawer_body dev pin = dev_do dev (RawBytes (if pin = 2 then KICK_PIN_2 else KICK_PIN_5))"

definition open_drawer :: "device \<Rightarrow> string \<Rightarrow> int \<Rightarrow> unit comp" where
  "open_drawer dev printer_id pin tr =
     (case connect_printer dev printer_id tr of
        (Inl e, tr1) \<Rightarrow> (Inl e, tr1)
      | (Inr printer, tr1) \<Rightarrow>
          try_finally (open_drawer_body dev pin) (try_except_pass (dev_do dev Close)) tr1)"


section \<open>Reading an event, and a concrete environment\<close>

text \<open>
  \<open>event_field\<close> reads a field of an event; \<open>is_object\<close> is the test
  \<open>isinstance(msg, dict)\<close> of \<open>parse_message\<close>. The environment \<open>example_env\<close> decodes
  five JSON texts as \<open>json.loads\<close> does, raises \<open>RecursionError\<close> on a text of
  100000 opening brackets and \<open>JSONDecodeError\<close> on every other text; its executor
  operations all return.
\<close>

fun event_field :: "json \<Rightarrow> string \<Rightarrow> json option" where
  "event_field (JObj kvs) k = map_of kvs k"
| "event_field other k = None"

fun is_object :: "json \<Rightarrow> bool" where
  "is_object (JObj kvs) = True"
| "is_object other = False"

definition example_env :: env where
  \<open>example_env =
     \<lparr>json_loads = (\<lambda>raw.
        if raw = replicate 100000 (CHR ''['') then
          OtherError ''maximum recursion depth exceeded while decoding a JSON array from a unicode string''
        else if raw = ''{"action": "print"}'' then Decoded (JObj [(''action'', JStr ''print'')])
        else if raw = ''{"action": "get_status"}'' then
          Decoded (JObj [(''action'', JStr ''get_status'')])
        else if raw = ''{"action": "dance"}'' then Decoded (JObj [(''action'', JStr ''dance'')])
        else if raw = ''{"foo": 1}'' then Decoded (JObj [(''foo'', JInt 1)])
        else if raw = ''[1, 2]'' then Decoded (JList [JInt 1, JInt 2])
        else JSONDecodeError ''Expecting value: line 1 column 1 (char 0)''),
      py_str = (\<lambda>j. case j of JStr s \<Rightarrow> s | other \<Rightarrow> ''None''),
      version = ''1.0.0'',
      generate_job_id = ''3f2b8c1e-0000-4000-8000-000000000001'',
      discover_all = [],
      run_task = (\<lambda>t. None)\<rparr>\<close>

definition example_state :: server_state where
  "example_state = \<lparr>cached_printers = [], scanner_manager = None\<rparr>"



section \<open>Properties of the scan detector\<close>

lemma alphabet_codes:
  "ustr ''0123456789ABCDEFGHIJKLMNOPQRSTUVWXYZ-. $/+%'' =
     [48..<58] @ [65..<91] @ map of_char ''-. $/+%''"
  by (simp add: ustr_def upt_conv_Cons)

lemma in_alphabet_iff:
  "c \<in> set (ustr ''0123456789ABCDEFGHIJKLMNOPQRSTUVWXYZ-. $/+%'') \<longleftrightarrow> code39_alphabet c"
proof -
  have "c \<in> set ([48..<58] @ [65..<91] @ map of_char ''-. $/+%'') \<longleftrightarrow>
        c \<in> {48..<58} \<or> c \<in> {65..<91} \<or> c \<in> of_char ` set ''-. $/+%''"
    by (simp only: set_append set_upt set_map Un_iff)
  also have "\<dots> \<longleftrightarrow> code39_alphabet c"
    unfolding code39_alphabet_def by auto
  finally show ?thesis unfolding alphabet_codes .
qed

lemma list_all_in_alphabet:
  "list_all (\<lambda>c. c \<in> set (ustr ''0123456789ABCDEFGHIJKLMNOPQRSTUVWXYZ-. $/+%'')) xs =
   list_all code39_alphabet xs"
  by (induction xs) (simp_all only: list.pred_inject in_alphabet_iff)

lemma detect_eq_spec: "detect_barcode_type U v = spec_classify U v"
proof (cases "v = []")
  case True
  then show ?thesis
    unfolding detect_barcode_type_def spec_classify_def py_isdigit_def py_upper_def
      list_all_in_alphabet
    by simp
next
  case False
  then show ?thesis
    unfolding detect_barcode_type_def spec_classify_def py_isdigit_def py_upper_def
      list_all_in_alphabet Let_def
    by simp
qed











lemma feed_append:
  "feed U cb s (xs @ ys) =
     (fst (feed U cb s xs) @ fst (feed U cb (snd (feed U cb s xs)) ys),
      snd (feed U cb (snd (feed U cb s xs)) ys))"
  by (induction xs arbitrary: s) (auto simp: split_beta Let_def)

lemma on_char_time: "last_keystroke_time (scanner_after (on_char U cb s ch now)) = now"
  by (simp add: on_char_def Let_def split: option.splits)

lemma on_char_gap:
  assumes "buffer s \<noteq> []" and "timeout s < now - last_keystroke_time s"
  shows "on_char U cb s ch now = on_char U cb (s\<lparr>buffer := []\<rparr>) ch now"
    and "cb_called (on_char U cb s ch now) = None"
    and "cb_raised (on_char U cb s ch now) = None"
    and "buffer (scanner_after (on_char U cb s ch now)) = (if ch = [10] \<or> ch = [13] then [] else ch)"
  using assms by (simp_all add: on_char_def Let_def)

lemma on_char_callback_raises:
  assumes "ch = [10] \<or> ch = [13]" and "length (buffer s) \<ge> 4"
    and "\<not> timeout s < now - last_keystroke_time s"
    and "cb (py_strip U (buffer s)) (detect_barcode_type U (py_strip U (buffer s))) = Some m"
  shows "cb_raised (on_char U cb s ch now) = Some m"
    and "buffer (scanner_after (on_char U cb s ch now)) = buffer s"
  using assms by (auto simp: on_char_def Let_def)

text \<open>
  Claim C6. Every call of the detector sets the time of the last keystroke to the
  current time. When the buffer is not empty and the time since the last keystroke
  exceeds the timeout, the call behaves as on an empty buffer: the callback is not
  called and the new buffer holds the new character alone (or nothing, after a line
  terminator). Over a sequence of keystrokes, what is emitted from such a gap on is what
  the detector emits when started on an empty buffer: the characters before the gap are
  in no later scan.
\<close>

theorem on_char_timeout_discards_buffer:
  fixes s :: "('t::{minus,ord}) scanner"
  shows "last_keystroke_time (scanner_after (on_char U cb s ch now)) = now \<and>
    (buffer s \<noteq> [] \<and> timeout s < now - last_keystroke_time s \<longrightarrow>
       on_char U cb s ch now = on_char U cb (s\<lparr>buffer := []\<rparr>) ch now \<and>
       cb_called (on_char U cb s ch now) = None \<and>
       buffer (scanner_after (on_char U cb s ch now)) =
         (if ch = [10] \<or> ch = [13] then [] else ch)) \<and>
    (buffer (snd (feed U cb s pre)) \<noteq> [] \<and>
     timeout (snd (feed U cb s pre)) < now - last_keystroke_time (snd (feed U cb s pre)) \<longrightarrow>
       fst (feed U cb s (pre @ (ch, now) # post)) =
         fst (feed U cb s pre) @
         fst (feed U cb ((snd (feed U cb s pre))\<lparr>buffer := []\<rparr>) ((ch, now) # post)))"
proof (intro conjI impI)
  show "last_keystroke_time (scanner_after (on_char U cb s ch now)) = now"
    by (rule on_char_time)
next
  assume "buffer s \<noteq> [] \<and> timeout s < now - last_keystroke_time s"
  then show "on_char U cb s ch now = on_char U cb (s\<lparr>buffer := []\<rparr>) ch now"
    by (simp add: on_char_gap(1))
next
  assume "buffer s \<noteq> [] \<and> timeout s < now - last_keystroke_time s"
  then show "cb_called (on_char U cb s ch now) = None"
    by (simp add: on_char_gap(2))
next
  assume "buffer s \<noteq> [] \<and> timeout s < now - last_keystroke_time s"
  then show "buffer (scanner_after (on_char U cb s ch now)) =
      (if ch = [10] \<or> ch = [13] then [] else ch)"
    by (simp add: on_char_gap(4))
next
  let ?s = "snd (feed U cb s pre)"
  assume a: "buffer ?s \<noteq> [] \<and> timeout ?s < now - last_keystroke_time ?s"
  then have "on_char U cb ?s ch now = on_char U cb (?s\<lparr>buffer := []\<rparr>) ch now"
    by (simp add: on_char_gap(1))
  then have "feed U cb ?s ((ch, now) # post) = feed U cb (?s\<lparr>buffer := []\<rparr>) ((ch, now) # post)"
    by simp
  then show "fst (feed U cb s (pre @ (ch, now) # post)) =
      fst (feed U cb s pre) @ fst (feed U cb (?s\<lparr>buffer := []\<rparr>) ((ch, now) # post))"
    by (simp only: feed_append fst_conv)
qed

theorem on_char_timeout_discards_buffer_witness:
  "buffer (snd (feed latin1 (\<lambda>b t. None)
              \<lparr>buffer = [], last_keystroke_time = 0, timeout = (1/10 :: real)\<rparr>
              [(ustr ''9'', 1), (ustr ''9'', 101/100)])) = ustr ''99'' \<and>
   fst (feed latin1 (\<lambda>b t. None)
          \<lparr>buffer = [], last_keystroke_time = 0, timeout = (1/10 :: real)\<rparr>
          ([(ustr ''9'', 1), (ustr ''9'', 101/100)] @
           (ustr ''1'', 2) # [(ustr ''2'', 201/100), (ustr ''3'', 202/100), (ustr ''4'', 203/100),
                              ([10], 204/100)])) = [(ustr ''1234'', ''CODE39'')]"
proof -
  let ?cb = "\<lambda>(b :: ustring) (t :: string). None :: string option"
  let ?s = "\<lparr>buffer = [], last_keystroke_time = 0, timeout = (1/10 :: real)\<rparr>"
  let ?pre = "[(ustr ''9'', 1), (ustr ''9'', 101/100 :: real)]"
  let ?post = "[(ustr ''2'', 201/100), (ustr ''3'', 202/100), (ustr ''4'', 203/100),
                ([10], 204/100 :: real)]"
  let ?mid = "\<lparr>buffer = ustr ''99'', last_keystroke_time = 101/100, timeout = (1/10 :: real)\<rparr>"
  have k: "detect_barcode_type latin1 (ustr ''1234'') = ''CODE39''"
    by (simp add: detect_eq_spec spec_classify_def latin1_def ustr_def code39_alphabet_def)
  have st: "py_strip latin1 (ustr ''1234'') = ustr ''1234''"
    by (simp add: py_strip_def latin1_def ustr_def)
  have pre: "feed latin1 ?cb ?s ?pre = ([], ?mid)"
    by (simp add: on_char_def Let_def ustr_def)
  have run: "feed latin1 ?cb (?mid\<lparr>buffer := []\<rparr>) ((ustr ''1'', 2) # ?post) =
             ([(ustr ''1234'', ''CODE39'')],
              \<lparr>buffer = [], last_keystroke_time = 204/100, timeout = 1/10\<rparr>)"
    using k st by (simp add: on_char_def Let_def ustr_def)
  have gap: "buffer (snd (feed latin1 ?cb ?s ?pre)) \<noteq> [] \<and>
             timeout (snd (feed latin1 ?cb ?s ?pre)) <
               2 - last_keystroke_time (snd (feed latin1 ?cb ?s ?pre))"
    unfolding pre by (simp add: ustr_def)
  have "fst (feed latin1 ?cb ?s (?pre @ (ustr ''1'', 2) # ?post)) =
        fst (feed latin1 ?cb ?s ?pre) @
        fst (feed latin1 ?cb ((snd (feed latin1 ?cb ?s ?pre))\<lparr>buffer := []\<rparr>)
              ((ustr ''1'', 2) # ?post))"
    using on_char_timeout_discards_buffer [of latin1 ?cb ?s "ustr ''1''" 2 ?pre ?post] gap
    by blast
  also have "\<dots> = [(ustr ''1234'', ''CODE39'')]"
    unfolding pre snd_conv fst_conv run by simp
  finally have out:
    "fst (feed latin1 ?cb ?s (?pre @ (ustr ''1'', 2) # ?post)) = [(ustr ''1234'', ''CODE39'')]" .
  have "buffer (snd (feed latin1 ?cb ?s ?pre)) = ustr ''99''"
    unfolding pre by simp
  with out show ?thesis by blast
qed





section \<open>Properties of numerals and of \<open>split\<close>\<close>

lemma digit_char_table:
  "\<forall>d \<in> set [0..<16]. digit_value (digit_char d) = Some d \<and>
      digit_char d \<notin> set [CHR ''_'', CHR '':'', CHR ''-'', CHR ''+'', CHR ''x'', CHR ''X''] \<and>
      \<not> c_isspace (digit_char d)"
  by (simp add: upt_conv_Cons digit_char_def digit_value_def c_isspace_def)

lemma digit_char_facts:
  assumes "d < 16"
  shows "digit_value (digit_char d) = Some d"
    and "digit_char d \<noteq> CHR ''_''" and "digit_char d \<noteq> CHR '':''"
    and "digit_char d \<noteq> CHR ''-''" and "digit_char d \<noteq> CHR ''+''"
    and "\<not> c_isspace (digit_char d)"
proof -
  from assms have "d \<in> set [0..<16]" by (simp only: set_upt atLeastLessThan_iff) simp
  with digit_char_table have
    "digit_value (digit_char d) = Some d \<and>
      digit_char d \<notin> set [CHR ''_'', CHR '':'', CHR ''-'', CHR ''+'', CHR ''x'', CHR ''X''] \<and>
      \<not> c_isspace (digit_char d)" by blast
  then show "digit_value (digit_char d) = Some d"
    and "digit_char d \<noteq> CHR ''_''" and "digit_char d \<noteq> CHR '':''"
    and "digit_char d \<noteq> CHR ''-''" and "digit_char d \<noteq> CHR ''+''"
    and "\<not> c_isspace (digit_char d)"
    by simp_all
qed

lemma plain_digit_facts:
  assumes "plain_digit c"
  shows "c \<noteq> CHR ''_''" and "c \<noteq> CHR '':''" and "c \<noteq> CHR ''-''" and "c \<noteq> CHR ''+''"
    and "\<not> c_isspace c"
  using assms digit_char_facts unfolding plain_digit_def by auto

lemma plain_zero: "plain_digit (CHR ''0'')"
  unfolding plain_digit_def by (rule exI [of _ 0]) (simp add: digit_char_def)

lemma hex_digits_plain: "hex_digits n \<noteq> [] \<and> list_all plain_digit (hex_digits n)"
proof (induction n rule: hex_digits.induct)
  case (1 n)
  show ?case
  proof (cases "n < 16")
    case True
    then have "hex_digits n = [digit_char n]" by (simp add: hex_digits.simps [of n])
    moreover from True have "plain_digit (digit_char n)"
      unfolding plain_digit_def by (rule_tac x = n in exI) simp
    ultimately show ?thesis by simp
  next
    case False
    then have e: "hex_digits n = hex_digits (n div 16) @ [digit_char (n mod 16)]"
      by (simp add: hex_digits.simps [of n])
    have "plain_digit (digit_char (n mod 16))"
      unfolding plain_digit_def by (rule exI [of _ "n mod 16"]) simp
    with 1 False show ?thesis unfolding e by simp
  qed
qed

lemma dec_digits_plain: "dec_digits n \<noteq> [] \<and> list_all plain_digit (dec_digits n)"
proof (induction n rule: dec_digits.induct)
  case (1 n)
  show ?case
  proof (cases "n < 10")
    case True
    then have "dec_digits n = [digit_char n]" by (simp add: dec_digits.simps [of n])
    moreover from True have "plain_digit (digit_char n)"
      unfolding plain_digit_def by (rule_tac x = n in exI) simp
    ultimately show ?thesis by simp
  next
    case False
    then have e: "dec_digits n = dec_digits (n div 10) @ [digit_char (n mod 10)]"
      by (simp add: dec_digits.simps [of n])
    have "n mod 10 < 16" by (rule less_trans [of _ 10]) simp_all
    then have "plain_digit (digit_char (n mod 10))"
      unfolding plain_digit_def by (rule_tac x = "n mod 10" in exI) simp
    with 1 False show ?thesis unfolding e by simp
  qed
qed

lemma digits_from_snoc:
  assumes "digits_from b us acc xs = Some m" and "digit_value c = Some d" and "d < b"
    and "c \<noteq> CHR ''_''"
  shows "digits_from b us acc (xs @ [c]) = Some (m * b + d)"
  using assms
proof (induction xs arbitrary: us acc)
  case Nil
  then show ?case by (simp split: if_splits)
next
  case (Cons x xs)
  then show ?case by (auto split: if_splits option.splits)
qed

lemma digits_from_hex: "digits_from 16 False 0 (hex_digits n) = Some n"
proof (induction n rule: hex_digits.induct)
  case (1 n)
  show ?case
  proof (cases "n < 16")
    case True
    then have "hex_digits n = [digit_char n]" by (simp add: hex_digits.simps [of n])
    with True show ?thesis by (simp add: digit_char_facts)
  next
    case False
    then have e: "hex_digits n = hex_digits (n div 16) @ [digit_char (n mod 16)]"
      by (simp add: hex_digits.simps [of n])
    have m: "n mod 16 < 16" by simp
    from 1 False have ih: "digits_from 16 False 0 (hex_digits (n div 16)) = Some (n div 16)" by simp
    have "digits_from 16 False 0 (hex_digits (n div 16) @ [digit_char (n mod 16)]) =
          Some (n div 16 * 16 + n mod 16)"
      by (rule digits_from_snoc [OF ih digit_char_facts(1) [OF m] m digit_char_facts(2) [OF m]])
    then show ?thesis unfolding e by simp
  qed
qed

lemma digits_from_dec: "digits_from 10 False 0 (dec_digits n) = Some n"
proof (induction n rule: dec_digits.induct)
  case (1 n)
  show ?case
  proof (cases "n < 10")
    case True
    then have "dec_digits n = [digit_char n]" and "n < 16" by (simp_all add: dec_digits.simps [of n])
    with True show ?thesis by (simp add: digit_char_facts)
  next
    case False
    then have e: "dec_digits n = dec_digits (n div 10) @ [digit_char (n mod 10)]"
      by (simp add: dec_digits.simps [of n])
    have m: "n mod 10 < 10" by simp
    then have m16: "n mod 10 < 16" by simp
    from 1 False have ih: "digits_from 10 False 0 (dec_digits (n div 10)) = Some (n div 10)" by simp
    have "digits_from 10 False 0 (dec_digits (n div 10) @ [digit_char (n mod 10)]) =
          Some (n div 10 * 10 + n mod 10)"
      by (rule digits_from_snoc [OF ih digit_char_facts(1) [OF m16] m digit_char_facts(2) [OF m16]])
    then show ?thesis unfolding e by simp
  qed
qed

lemma digit_value_zero: "digit_value (CHR ''0'') = Some 0"
  using digit_char_facts(1) [of 0] by (simp add: digit_char_def)

lemma digits_from_zeros:
  "digits_from 16 False 0 (replicate k (CHR ''0'') @ xs) = digits_from 16 False 0 xs"
  by (induction k) (simp_all add: digit_value_zero)

lemma int_strip_id:
  assumes "s \<noteq> []" and "\<not> c_isspace (hd s)" and "\<not> c_isspace (last s)"
  shows "int_strip s = s"
proof -
  from assms have a: "dropWhile c_isspace s = s" by (cases s) simp_all
  from assms have "rev s \<noteq> []" "\<not> c_isspace (hd (rev s))" by (simp_all add: hd_rev)
  then have "dropWhile c_isspace (rev s) = rev s" by (cases "rev s") simp_all
  with a show ?thesis by (simp add: int_strip_def)
qed

lemma py_int_hex_shape:
  assumes "ds \<noteq> []" and "list_all plain_digit ds" and "digits_from 16 False 0 ds = Some m"
  shows "py_int 16 (''0x'' @ ds) = Inr (int m)"
    and "py_int 16 (''-0x'' @ ds) = Inr (- int m)"
proof -
  from assms(1,2) obtain d ds' where ds: "ds = d # ds'" and d: "plain_digit d"
    by (cases ds) auto
  from assms(1,2) have "plain_digit (last ds)"
    by (simp add: list_all_iff)
  then have l: "\<not> c_isspace (last ds)" by (rule plain_digit_facts)
  have "\<not> c_isspace (CHR ''0'')" "\<not> c_isspace (CHR ''-'')" by (simp_all add: c_isspace_def)
  with l assms(1) have s: "int_strip (''0x'' @ ds) = ''0x'' @ ds" "int_strip (''-0x'' @ ds) = ''-0x'' @ ds"
    by (simp_all add: int_strip_id)
  from d have u: "d \<noteq> CHR ''_''" by (rule plain_digit_facts)
  show "py_int 16 (''0x'' @ ds) = Inr (int m)"
    unfolding py_int_def s using u assms(3) by (simp add: ds)
  show "py_int 16 (''-0x'' @ ds) = Inr (- int m)"
    unfolding py_int_def s using u assms(3) by (simp add: ds)
qed

lemma py_int_dec_shape:
  assumes "ds \<noteq> []" and "list_all plain_digit ds" and "digits_from 10 False 0 ds = Some m"
  shows "py_int 10 ds = Inr (int m)"
    and "py_int 10 (''-'' @ ds) = Inr (- int m)"
proof -
  from assms(1,2) obtain d ds' where ds: "ds = d # ds'" and d: "plain_digit d"
    by (cases ds) auto
  from assms(1,2) have "plain_digit (last ds)"
    by (simp add: list_all_iff)
  then have l: "\<not> c_isspace (last ds)" by (rule plain_digit_facts)
  from d have h: "\<not> c_isspace (hd ds)" unfolding ds by (simp add: plain_digit_facts)
  have "\<not> c_isspace (CHR ''-'')" by (simp add: c_isspace_def)
  with l h assms(1) have s: "int_strip ds = ds" "int_strip (''-'' @ ds) = ''-'' @ ds"
    by (simp_all add: int_strip_id)
  from d have u: "d \<noteq> CHR ''_''" "d \<noteq> CHR ''-''" "d \<noteq> CHR ''+''"
    by (rule plain_digit_facts)+
  show "py_int 10 ds = Inr (int m)"
    unfolding py_int_def s using u assms(3) by (simp add: ds)
  show "py_int 10 (''-'' @ ds) = Inr (- int m)"
    unfolding py_int_def s using u assms(3) by (simp add: ds)
qed

lemma py_int_format_06x: "py_int 16 (py_format_06x n) = Inr n"
proof -
  let ?ds = "hex_digits (nat \<bar>n\<bar>)"
  let ?k = "\<lambda>sign. 6 - (length (sign :: string) + 2 + length ?ds)"
  let ?body = "\<lambda>sign. replicate (?k sign) (CHR ''0'') @ ?ds"
  have body: "?body sign \<noteq> []" "list_all plain_digit (?body sign)"
    "digits_from 16 False 0 (?body sign) = Some (nat \<bar>n\<bar>)" for sign
  proof -
    from hex_digits_plain [of "nat \<bar>n\<bar>"] show "?body sign \<noteq> []" by simp
    have "list_all plain_digit (replicate (?k sign) (CHR ''0''))"
      using plain_zero by (simp add: list_all_iff)
    with hex_digits_plain [of "nat \<bar>n\<bar>"] show "list_all plain_digit (?body sign)"
      by simp
    show "digits_from 16 False 0 (?body sign) = Some (nat \<bar>n\<bar>)"
      by (simp only: digits_from_zeros digits_from_hex)
  qed
  show ?thesis
  proof (cases "n < 0")
    case True
    then have "py_format_06x n = ''-0x'' @ ?body ''-''"
      by (simp add: py_format_06x_def Let_def)
    with True py_int_hex_shape(2) [OF body, of "''-''"] show ?thesis by simp
  next
    case False
    then have "py_format_06x n = ''0x'' @ ?body []"
      by (simp add: py_format_06x_def Let_def)
    with False py_int_hex_shape(1) [OF body, of "[]"] show ?thesis by simp
  qed
qed

lemma py_int_str_int: "py_int 10 (py_str_int n) = Inr n"
proof (cases "n < 0")
  case True
  with py_int_dec_shape(2) [OF conjunct1 [OF dec_digits_plain] conjunct2 [OF dec_digits_plain]
      digits_from_dec, of "nat (- n)"]
  show ?thesis by (simp add: py_str_int_def)
next
  case False
  with py_int_dec_shape(1) [OF conjunct1 [OF dec_digits_plain] conjunct2 [OF dec_digits_plain]
      digits_from_dec, of "nat n"]
  show ?thesis by (simp add: py_str_int_def)
qed

lemma no_colon_format_06x: "CHR '':'' \<notin> set (py_format_06x n)"
proof -
  have "CHR '':'' \<notin> set (hex_digits (nat \<bar>n\<bar>))"
    using hex_digits_plain [of "nat \<bar>n\<bar>"] plain_digit_facts(2) by (auto simp: list_all_iff)
  then show ?thesis by (auto simp: py_format_06x_def Let_def)
qed

lemma no_colon_str_int: "CHR '':'' \<notin> set (py_str_int n)"
proof -
  have "CHR '':'' \<notin> set (dec_digits m)" for m
    using dec_digits_plain [of m] plain_digit_facts(2) by (auto simp: list_all_iff)
  then show ?thesis by (auto simp: py_str_int_def)
qed

lemma takeWhile_until_sep:
  "sep \<notin> set a \<Longrightarrow> takeWhile (\<lambda>c. c \<noteq> sep) (a @ sep # b) = a"
  by (induction a) auto

lemma dropWhile_until_sep:
  "sep \<notin> set a \<Longrightarrow> dropWhile (\<lambda>c. c \<noteq> sep) (a @ sep # b) = sep # b"
  by (induction a) auto

lemma split_once_at: "sep \<notin> set a \<Longrightarrow> split_once sep (a @ sep # b) = [a, b]"
  by (simp add: split_once_def takeWhile_until_sep dropWhile_until_sep)

lemma rsplit_once_at:
  assumes "sep \<notin> set b"
  shows "rsplit_once sep (a @ sep # b) = [a, b]"
proof -
  from assms have r: "sep \<notin> set (rev b)" by simp
  have "rev (a @ sep # b) = rev b @ sep # rev a" by simp
  then show ?thesis
    unfolding rsplit_once_def
    by (simp add: takeWhile_until_sep [OF r] dropWhile_until_sep [OF r]
        del: rev_append rev.simps)
qed

lemma rsplit_once_none: "sep \<notin> set s \<Longrightarrow> rsplit_once sep s = [s]"
  by (simp add: rsplit_once_def)

lemma split_all_none: "sep \<notin> set s \<Longrightarrow> split_all sep s = [s]"
  by (induction s) auto

lemma split_all_at: "sep \<notin> set a \<Longrightarrow> split_all sep (a @ sep # b) = a # split_all sep b"
  by (induction a) auto


section \<open>Properties of printer identifiers\<close>

lemma parse_usb: "parse_printer_id (usb_printer_id v p) = Inr (''usb'', UsbParams v p)"
proof -
  have "split_once (CHR '':'') (usb_printer_id v p) =
          [''usb'', py_format_06x v @ '':'' @ py_format_06x p]"
    unfolding usb_printer_id_def using split_once_at [of "CHR '':''" "''usb''"] by simp
  moreover have "split_all (CHR '':'') (py_format_06x v @ '':'' @ py_format_06x p) =
          [py_format_06x v, py_format_06x p]"
    using split_all_at [OF no_colon_format_06x, of v] split_all_none [OF no_colon_format_06x, of p]
    by simp
  ultimately show ?thesis
    by (simp add: parse_printer_id_def py_int_format_06x)
qed

lemma parse_network:
  "parse_printer_id (network_printer_id h p) = Inr (''network'', NetworkParams h p)"
proof -
  have "split_once (CHR '':'') (network_printer_id h p) = [''network'', h @ '':'' @ py_str_int p]"
    unfolding network_printer_id_def using split_once_at [of "CHR '':''" "''network''"] by simp
  moreover have "rsplit_once (CHR '':'') (h @ '':'' @ py_str_int p) = [h, py_str_int p]"
    using rsplit_once_at [OF no_colon_str_int, of h p] by simp
  ultimately show ?thesis
    by (simp add: parse_printer_id_def py_int_str_int)
qed

lemma parse_bluetooth:
  "parse_printer_id (bluetooth_printer_id a) = Inr (''bluetooth'', BluetoothParams a)"
proof -
  have "split_once (CHR '':'') (bluetooth_printer_id a) = [''bluetooth'', a]"
    unfolding bluetooth_printer_id_def using split_once_at [of "CHR '':''" "''bluetooth''"] by simp
  then show ?thesis
    by (simp add: parse_printer_id_def)
qed

lemma parse_network_no_port:
  assumes "CHR '':'' \<notin> set h"
  shows "parse_printer_id (''network:'' @ h) = Inr (''network'', NetworkParams h 9100)"
proof -
  have "split_once (CHR '':'') (''network:'' @ h) = [''network'', h]"
    using split_once_at [of "CHR '':''" "''network''"] by simp
  with rsplit_once_none [OF assms] show ?thesis
    by (simp add: parse_printer_id_def ESCPOS_NETWORK_PORT_def)
qed

text \<open>
  Claim C1. Every identifier that a discovery function produces (a USB identifier from
  a vendor and a product number, a network identifier from a host and a port, a
  Bluetooth identifier from an address) is parsed by \<open>parse_printer_id\<close> into its
  transport and exactly the parameters it was built from, and writing these back in the
  format of the discovery function gives the identical string.
\<close>

theorem printer_id_round_trip:
  "parse_printer_id (usb_printer_id v p) = Inr (''usb'', UsbParams v p) \<and>
   round_trips (usb_printer_id v p) \<and>
   parse_printer_id (network_printer_id h q) = Inr (''network'', NetworkParams h q) \<and>
   round_trips (network_printer_id h q) \<and>
   parse_printer_id (bluetooth_printer_id a) = Inr (''bluetooth'', BluetoothParams a) \<and>
   round_trips (bluetooth_printer_id a)"
  by (simp add: round_trips_def parse_usb parse_network parse_bluetooth)

theorem printer_id_round_trip_witness:
  "parse_printer_id ''usb:0x04b8:0x0202'' = Inr (''usb'', UsbParams 0x04b8 0x0202) \<and>
   round_trips ''usb:0x04b8:0x0202'' \<and>
   parse_printer_id ''network:192.168.1.100:9100'' =
     Inr (''network'', NetworkParams ''192.168.1.100'' 9100) \<and>
   round_trips ''network:192.168.1.100:9100'' \<and>
   parse_printer_id ''bluetooth:AA:BB:CC:DD:EE:FF'' =
     Inr (''bluetooth'', BluetoothParams ''AA:BB:CC:DD:EE:FF'') \<and>
   round_trips ''bluetooth:AA:BB:CC:DD:EE:FF''"
proof -
  have u: "usb_printer_id 0x04b8 0x0202 = ''usb:0x04b8:0x0202''"
    by (simp add: usb_printer_id_def py_format_06x_def Let_def hex_digits.simps digit_char_def)
  have n: "network_printer_id ''192.168.1.100'' 9100 = ''network:192.168.1.100:9100''"
    by (simp add: network_printer_id_def py_str_int_def dec_digits.simps digit_char_def)
  have b: "bluetooth_printer_id ''AA:BB:CC:DD:EE:FF'' = ''bluetooth:AA:BB:CC:DD:EE:FF''"
    by (simp add: bluetooth_printer_id_def)
  from printer_id_round_trip [of "0x04b8" "0x0202" "''192.168.1.100''" 9100 "''AA:BB:CC:DD:EE:FF''"]
  show ?thesis unfolding u n b .
qed

text \<open>
  Claim C10. An identifier \<open>network:<host>\<close> whose host contains no colon, so that no
  port component is present, is accepted by \<open>parse_printer_id\<close>: the transport is
  \<open>network\<close>, the host is the given one and the port is the default 9100.
\<close>

theorem parse_printer_id_network_default_port:
  assumes "CHR '':'' \<notin> set h"
  shows "parse_printer_id (''network:'' @ h) = Inr (''network'', NetworkParams h 9100) \<and>
         ESCPOS_NETWORK_PORT = 9100"
  using parse_network_no_port [OF assms] by (simp add: ESCPOS_NETWORK_PORT_def)

theorem parse_printer_id_network_default_port_witness:
  "CHR '':'' \<notin> set ''192.168.1.50'' \<and>
   parse_printer_id ''network:192.168.1.50'' = Inr (''network'', NetworkParams ''192.168.1.50'' 9100)"
proof -
  have c: "CHR '':'' \<notin> set ''192.168.1.50''" by simp
  from parse_printer_id_network_default_port [OF c] c show ?thesis by simp
qed


section \<open>Properties of the connection lifecycle\<close>

lemma dev_do_trace: "snd (dev_do dev c tr) = tr @ [c]"
  by (simp add: dev_do_def)

lemma do_all_trace:
  "\<exists>made. snd (do_all (map (dev_do dev) cs) tr) = tr @ made \<and> set made \<subseteq> set cs"
proof (induction cs arbitrary: tr)
  case Nil
  then show ?case by simp
next
  case (Cons c cs)
  show ?case
  proof (cases "dev tr c")
    case None
    from Cons [of "tr @ [c]"] obtain d where
      d: "snd (do_all (map (dev_do dev) cs) (tr @ [c])) = (tr @ [c]) @ d" "set d \<subseteq> set cs"
      by blast
    from None d(1) have "snd (do_all (map (dev_do dev) (c # cs)) tr) = tr @ (c # d)"
      by (simp add: then_do_def dev_do_def)
    moreover from d(2) have "set (c # d) \<subseteq> set (c # cs)" by auto
    ultimately show ?thesis by blast
  next
    case (Some m)
    then have "snd (do_all (map (dev_do dev) (c # cs)) tr) = tr @ [c]"
      by (simp add: then_do_def dev_do_def)
    moreover have "set [c] \<subseteq> set (c # cs)" by simp
    ultimately show ?thesis by blast
  qed
qed

lemma finally_close:
  "try_finally body (try_except_pass (dev_do dev Close)) tr =
     (fst (body tr), snd (body tr) @ [Close])"
  by (simp add: try_finally_def try_except_pass_def dev_do_def split: prod.splits option.splits)

lemma close_not_in_test_print_calls: "Close \<notin> set (test_print_calls printer_id stamp)"
  by (simp add: test_print_calls_def)


text \<open>
  Claim C5. Once \<open>connect_printer\<close> has returned the printer, each of \<open>print_document\<close>,
  \<open>test_print\<close> and \<open>open_drawer\<close> ends with exactly one call of \<open>close\<close>, made after
  the last call of the body, whether the body returns or raises; and what the caller
  observes is the outcome of the body (its return or its own exception), whatever the
  call of \<open>close\<close> does. The device is arbitrary, so this covers every device on which
  \<open>close\<close> raises.
\<close>

theorem printer_closed_on_every_exit:
  assumes "connect_printer dev printer_id tr = (Inr (), tr1)"
  shows "(\<exists>calls. print_document dev printer_id document_type data tr =
            (fst (print_document_body dev document_type data tr1), tr1 @ calls @ [Close]) \<and>
            snd (print_document_body dev document_type data tr1) = tr1 @ calls \<and>
            Close \<notin> set calls) \<and>
         (\<exists>calls. test_print dev printer_id stamp tr =
            (fst (test_print_body dev printer_id stamp tr1), tr1 @ calls @ [Close]) \<and>
            snd (test_print_body dev printer_id stamp tr1) = tr1 @ calls \<and>
            Close \<notin> set calls) \<and>
         (\<exists>calls. open_drawer dev printer_id pin tr =
            (fst (open_drawer_body dev pin tr1), tr1 @ calls @ [Close]) \<and>
            snd (open_drawer_body dev pin tr1) = tr1 @ calls \<and>
            Close \<notin> set calls)"
proof (intro conjI)
  let ?r = "Render (renderer_for document_type) data"
  have "snd (print_document_body dev document_type data tr1) = tr1 @ [?r]"
    by (simp add: print_document_body_def dev_do_trace)
  moreover from this assms
  have "print_document dev printer_id document_type data tr =
          (fst (print_document_body dev document_type data tr1), tr1 @ [?r] @ [Close])"
    by (simp add: print_document_def finally_close)
  moreover have "Close \<notin> set [?r]" by simp
  ultimately show "\<exists>calls. print_document dev printer_id document_type data tr =
      (fst (print_document_body dev document_type data tr1), tr1 @ calls @ [Close]) \<and>
      snd (print_document_body dev document_type data tr1) = tr1 @ calls \<and> Close \<notin> set calls"
    by blast
next
  from do_all_trace [of dev "test_print_calls printer_id stamp" tr1] obtain made where
    m: "snd (test_print_body dev printer_id stamp tr1) = tr1 @ made"
       "set made \<subseteq> set (test_print_calls printer_id stamp)"
    unfolding test_print_body_def by blast
  from m(2) close_not_in_test_print_calls have "Close \<notin> set made" by blast
  moreover from m(1) assms
  have "test_print dev printer_id stamp tr =
          (fst (test_print_body dev printer_id stamp tr1), tr1 @ made @ [Close])"
    by (simp add: test_print_def finally_close)
  ultimately show "\<exists>calls. test_print dev printer_id stamp tr =
      (fst (test_print_body dev printer_id stamp tr1), tr1 @ calls @ [Close]) \<and>
      snd (test_print_body dev printer_id stamp tr1) = tr1 @ calls \<and> Close \<notin> set calls"
    using m(1) by blast
next
  let ?k = "RawBytes (if pin = 2 then KICK_PIN_2 else KICK_PIN_5)"
  have "snd (open_drawer_body dev pin tr1) = tr1 @ [?k]"
    by (simp add: open_drawer_body_def dev_do_trace)
  moreover from this assms
  have "open_drawer dev printer_id pin tr = (fst (open_drawer_body dev pin tr1), tr1 @ [?k] @ [Close])"
    by (simp add: open_drawer_def finally_close)
  moreover have "Close \<notin> set [?k]" by simp
  ultimately show "\<exists>calls. open_drawer dev printer_id pin tr =
      (fst (open_drawer_body dev pin tr1), tr1 @ calls @ [Close]) \<and>
      snd (open_drawer_body dev pin tr1) = tr1 @ calls \<and> Close \<notin> set calls"
    by blast
qed

text \<open>
  A device on which the drawer kick fails and \<open>close\<close> fails as well: the caller of
  \<open>open_drawer\<close> sees the failure of the kick, and \<open>close\<close> has been called.
\<close>

theorem printer_closed_on_every_exit_witness:
  "connect_printer (\<lambda>tr c. if c = Close then Some ''close failed''
                            else if c = RawBytes KICK_PIN_2 then Some ''device gone'' else None)
     ''network:192.168.1.50'' [] =
     (Inr (), [ImportModule ''escpos.printer'', Open ''Network'' (NetworkParams ''192.168.1.50'' 9100)]) \<and>
   open_drawer (\<lambda>tr c. if c = Close then Some ''close failed''
                        else if c = RawBytes KICK_PIN_2 then Some ''device gone'' else None)
     ''network:192.168.1.50'' 2 [] =
     (Inl (Raised ''device gone''),
      [ImportModule ''escpos.printer'', Open ''Network'' (NetworkParams ''192.168.1.50'' 9100),
       RawBytes KICK_PIN_2, Close])"
proof -
  let ?dev = "\<lambda>(tr :: dev_call list) c. if c = Close then Some ''close failed''
                 else if c = RawBytes KICK_PIN_2 then Some ''device gone'' else None"
  let ?tr1 = "[ImportModule ''escpos.printer'', Open ''Network'' (NetworkParams ''192.168.1.50'' 9100)]"
  have p: "parse_printer_id ''network:192.168.1.50'' =
             Inr (''network'', NetworkParams ''192.168.1.50'' 9100)"
    using parse_network_no_port [of "''192.168.1.50''"] by simp
  have c: "connect_printer ?dev ''network:192.168.1.50'' [] = (Inr (), ?tr1)"
    by (simp add: connect_printer_def dev_do_def p)
  have b: "open_drawer_body ?dev 2 ?tr1 = (Inl (Raised ''device gone''), ?tr1 @ [RawBytes KICK_PIN_2])"
    by (simp add: open_drawer_body_def dev_do_def)
  from printer_closed_on_every_exit [OF c, of _ _ _ 2]
  obtain calls where
    o: "open_drawer ?dev ''network:192.168.1.50'' 2 [] =
          (fst (open_drawer_body ?dev 2 ?tr1), ?tr1 @ calls @ [Close])"
       "snd (open_drawer_body ?dev 2 ?tr1) = ?tr1 @ calls"
    by blast
  from o(2) have "calls = [RawBytes KICK_PIN_2]" unfolding b by simp
  with o(1) have "open_drawer ?dev ''network:192.168.1.50'' 2 [] =
      (Inl (Raised ''device gone''), ?tr1 @ [RawBytes KICK_PIN_2] @ [Close])"
    unfolding b by simp
  with c show ?thesis by simp
qed


section \<open>Properties of broadcast and of the health probe\<close>

lemma broadcast_loop_result:
  "broadcast_loop send_ok message conns delivered disconnected =
     (delivered @ map (\<lambda>ws. (ws, message)) (filter send_ok conns),
      disconnected \<union> {ws \<in> set conns. \<not> send_ok ws})"
  by (induction conns arbitrary: delivered disconnected) auto

lemma broadcast_result:
  "broadcast send_ok conns message =
     (map (\<lambda>ws. (ws, message)) (filter send_ok conns), filter send_ok conns)"
proof -
  have "filter (\<lambda>ws. ws \<notin> {ws \<in> set conns. \<not> send_ok ws}) conns = filter send_ok conns"
    by (rule filter_cong) auto
  then show ?thesis by (simp add: broadcast_def broadcast_loop_result)
qed

text \<open>
  Claim C4. A broadcast delivers the message to exactly the registered connections
  whose send succeeds, in the order of the loop, and leaves exactly these in the
  registry: every connection whose send fails is removed, and a failure does not stop
  the loop, so the connections after it are still served.
\<close>

theorem broadcast_isolates_failures:
  "fst (broadcast send_ok conns message) = map (\<lambda>ws. (ws, message)) (filter send_ok conns) \<and>
   snd (broadcast send_ok conns message) = filter send_ok conns \<and>
   (\<forall>ws \<in> set conns. send_ok ws \<longrightarrow>
      (ws, message) \<in> set (fst (broadcast send_ok conns message)) \<and>
      ws \<in> set (snd (broadcast send_ok conns message))) \<and>
   (\<forall>ws \<in> set conns. \<not> send_ok ws \<longrightarrow>
      (ws, message) \<notin> set (fst (broadcast send_ok conns message)) \<and>
      ws \<notin> set (snd (broadcast send_ok conns message)))"
  unfolding broadcast_result by auto

theorem broadcast_isolates_failures_witness:
  "broadcast (\<lambda>ws. ws \<noteq> (2 :: nat)) [1, 2, 3] ''scan'' = ([(1, ''scan''), (3, ''scan'')], [1, 3])"
proof -
  from broadcast_isolates_failures [of "\<lambda>ws. ws \<noteq> (2 :: nat)" "[1, 2, 3]" "''scan''"]
  have "fst (broadcast (\<lambda>ws. ws \<noteq> (2 :: nat)) [1, 2, 3] ''scan'') = [(1, ''scan''), (3, ''scan'')]"
    and "snd (broadcast (\<lambda>ws. ws \<noteq> (2 :: nat)) [1, 2, 3] ''scan'') = [1, 3]"
    by simp_all
  then show ?thesis by (simp add: prod_eq_iff)
qed

text \<open>
  Claim C9, as stated, does not hold: the object that the health probe returns has no
  field \<open>printer_count\<close> and no field \<open>scanner_active\<close>.
\<close>

theorem health_check_field_names_counterexample:
  "map_of (health_check ''1.0.0'' \<lparr>cached_printers = [], scanner_manager = None\<rparr>)
     ''printer_count'' = None \<and>
   map_of (health_check ''1.0.0'' \<lparr>cached_printers = [], scanner_manager = None\<rparr>)
     ''scanner_active'' = None"
  by (simp add: health_check_def)

text \<open>
  Claim C9, amended. The health probe returns an object with exactly the fields
  \<open>status\<close>, \<open>version\<close>, \<open>printers\<close> and \<open>scanner\<close>: the status is \<open>ok\<close>, \<open>printers\<close> is
  the number of printers in the cache and \<open>scanner\<close> tells whether there is a scanner
  manager that is running. The result depends on the version and on the cached state
  only: no device is called and no job is created.
\<close>

theorem health_check_fields:
  "map fst (health_check ver st) = [''status'', ''version'', ''printers'', ''scanner''] \<and>
   map_of (health_check ver st) ''status'' = Some (JStr ''ok'') \<and>
   map_of (health_check ver st) ''version'' = Some (JStr ver) \<and>
   map_of (health_check ver st) ''printers'' = Some (JInt (int (length (cached_printers st)))) \<and>
   map_of (health_check ver st) ''scanner'' =
     Some (JBool (scanner_manager st = Some True))"
  by (cases "scanner_manager st") (auto simp: health_check_def scanner_active_def)

theorem health_check_fields_witness:
  "health_check ''1.0.0'' \<lparr>cached_printers = [JObj [(''id'', JStr ''usb:0x04b8:0x0202'')]],
                            scanner_manager = Some True\<rparr> =
     [(''status'', JStr ''ok''), (''version'', JStr ''1.0.0''), (''printers'', JInt 1),
      (''scanner'', JBool True)]"
proof -
  let ?st = "\<lparr>cached_printers = [JObj [(''id'', JStr ''usb:0x04b8:0x0202'')]],
              scanner_manager = Some True\<rparr>"
  from health_check_fields [of "''1.0.0''" ?st]
  have "map fst (health_check ''1.0.0'' ?st) = [''status'', ''version'', ''printers'', ''scanner'']"
    and "map_of (health_check ''1.0.0'' ?st) ''printers'' = Some (JInt 1)"
    by simp_all
  then show ?thesis by (simp add: health_check_def scanner_active_def)
qed


section \<open>Properties of the dispatcher\<close>

lemma parse_message_object:
  assumes "loads raw = Decoded (JObj msg)"
    and "map_of msg ''action'' \<noteq> None \<or> map_of msg ''event'' \<noteq> None"
  shows "parse_message loads raw = Inr msg"
  using assms by (auto simp: parse_message_def)

lemma action_not_in_ACTIONS:
  "a \<notin> JStr ` set ACTIONS \<longleftrightarrow>
     a \<noteq> JStr ''get_status'' \<and> a \<noteq> JStr ''discover_printers'' \<and> a \<noteq> JStr ''print'' \<and>
     a \<noteq> JStr ''open_drawer'' \<and> a \<noteq> JStr ''test_print'' \<and> a \<noteq> JStr ''send_notification'' \<and>
     a \<noteq> JStr ''toggle_keyboard''"
  unfolding ACTIONS_def by simp


lemma short_text_not_deep:
  assumes "length s < 100000"
  shows "(s = replicate 100000 c) = False" and "(replicate 100000 c = s) = False"
  using assms by auto

lemma example_loads:
  \<open>json_loads example_env (replicate 100000 (CHR ''['')) =
     OtherError ''maximum recursion depth exceeded while decoding a JSON array from a unicode string''\<close>
  \<open>json_loads example_env ''{"action": "print"}'' = Decoded (JObj [(''action'', JStr ''print'')])\<close>
  \<open>json_loads example_env ''{"action": "get_status"}'' =
     Decoded (JObj [(''action'', JStr ''get_status'')])\<close>
  \<open>json_loads example_env ''{"action": "dance"}'' = Decoded (JObj [(''action'', JStr ''dance'')])\<close>
  \<open>json_loads example_env ''{"foo": 1}'' = Decoded (JObj [(''foo'', JInt 1)])\<close>
  \<open>json_loads example_env ''[1, 2]'' = Decoded (JList [JInt 1, JInt 2])\<close>
  \<open>json_loads example_env ''not json'' = JSONDecodeError ''Expecting value: line 1 column 1 (char 0)''\<close>
  by (simp_all add: example_env_def short_text_not_deep)

lemma example_fields:
  "generate_job_id example_env = ''3f2b8c1e-0000-4000-8000-000000000001''"
  "version example_env = ''1.0.0''"
  "py_str example_env (JStr s) = s"
  "run_task example_env t = None"
  "discover_all example_env = []"
  by (simp_all add: example_env_def)

text \<open>
  Claim C3, as stated, does not hold: the event sent for a \<open>print\<close> command without
  \<open>printer_id\<close> is a \<open>print_error\<close> event with the fields \<open>event\<close>, \<open>job_id\<close> and
  \<open>error\<close>; it has no field \<open>code\<close>.
\<close>

theorem print_error_has_no_code_counterexample:
  \<open>sent (handle_message example_env example_state ''{"action": "print"}'') =
     [JObj [(''event'', JStr ''print_error''),
            (''job_id'', JStr ''3f2b8c1e-0000-4000-8000-000000000001''),
            (''error'', JStr ''No printer_id specified'')]] \<and>
   event_field (hd (sent (handle_message example_env example_state ''{"action": "print"}'')))
     ''code'' = None\<close>
  by (simp add: handle_message_def parse_message_def example_loads handle_print_def
      dict_get_def dict_get_default_def print_error_event_def example_fields)

text \<open>
  Claim C3, amended. For every inbound \<open>print\<close> command whose message has no
  \<open>printer_id\<close> field, the dispatcher sends exactly one \<open>print_error\<close> event, whose
  \<open>job_id\<close> is the one of the message (a generated one when the message has none, or
  an empty one) and whose \<open>error\<close> field is the text \<open>No printer_id specified\<close>; the
  event has no \<open>code\<close> field. Nothing is submitted to the executor, no exception leaves
  the handler and the state is unchanged.
\<close>

theorem print_without_printer_id:
  assumes "json_loads e raw = Decoded (JObj msg)"
    and "map_of msg ''action'' = Some (JStr ''print'')"
    and "map_of msg ''printer_id'' = None"
  shows "(let job_id = (if truthy (dict_get msg ''job_id'') then dict_get msg ''job_id''
                        else JStr (generate_job_id e));
              ev = print_error_event job_id ''No printer_id specified''
          in handle_message e st raw =
               \<lparr>sent = [ev], submitted = [], raised = None, state_after = st\<rparr> \<and>
             event_field ev ''event'' = Some (JStr ''print_error'') \<and>
             event_field ev ''job_id'' = Some job_id \<and>
             event_field ev ''error'' = Some (JStr ''No printer_id specified'') \<and>
             event_field ev ''code'' = None)"
proof -
  from assms(1,2) have p: "parse_message (json_loads e) raw = Inr msg"
    by (intro parse_message_object) simp_all
  from assms(2) have a: "dict_get msg ''action'' = JStr ''print''"
    by (simp add: dict_get_def)
  from assms(3) have n: "dict_get msg ''printer_id'' = JNull"
    by (simp add: dict_get_def)
  show ?thesis
    by (simp add: handle_message_def p a handle_print_def n Let_def print_error_event_def)
qed

theorem print_without_printer_id_witness:
  \<open>handle_message example_env example_state ''{"action": "print"}'' =
     \<lparr>sent = [print_error_event (JStr ''3f2b8c1e-0000-4000-8000-000000000001'')
                ''No printer_id specified''],
      submitted = [], raised = None, state_after = example_state\<rparr>\<close>
proof -
  have l: \<open>json_loads example_env ''{"action": "print"}'' = Decoded (JObj [(''action'', JStr ''print'')])\<close>
    by (rule example_loads)
  have g: "generate_job_id example_env = ''3f2b8c1e-0000-4000-8000-000000000001''"
    by (simp add: example_env_def)
  from print_without_printer_id [OF l, of example_state]
  show ?thesis by (simp add: Let_def dict_get_def g)
qed


text \<open>
  What \<open>handle_message\<close> does, by the result of the decoder. A \<open>JSONDecodeError\<close>,
  another \<open>ValueError\<close>, a value that is not an object and an object with neither an
  \<open>action\<close> nor an \<open>event\<close> key are each answered with one \<open>error\<close> event with code
  \<open>parse_error\<close>; an object with one of the keys is routed on its \<open>action\<close>, a value
  outside \<open>ACTIONS\<close> giving one \<open>error\<close> event with code \<open>unknown_action\<close>. An
  exception of the decoder that is not a \<open>ValueError\<close> is not caught.
\<close>

lemma handle_message_by_decoder_result:
  "(json_loads e raw = OtherError m \<longrightarrow>
      handle_message e st raw = \<lparr>sent = [], submitted = [], raised = Some m, state_after = st\<rparr>) \<and>
   (json_loads e raw = OtherValueError m \<longrightarrow>
      handle_message e st raw =
        \<lparr>sent = [error_event m ''parse_error''],
         submitted = [], raised = None, state_after = st\<rparr>) \<and>
   (json_loads e raw = JSONDecodeError m \<longrightarrow>
      handle_message e st raw =
        \<lparr>sent = [error_event (''Invalid JSON: '' @ m) ''parse_error''],
         submitted = [], raised = None, state_after = st\<rparr>) \<and>
   (json_loads e raw = Decoded v \<and> \<not> is_object v \<longrightarrow>
      handle_message e st raw =
        \<lparr>sent = [error_event ''Message must be a JSON object'' ''parse_error''],
         submitted = [], raised = None, state_after = st\<rparr>) \<and>
   (json_loads e raw = Decoded (JObj msg) \<and> map_of msg ''action'' = None \<and> map_of msg ''event'' = None \<longrightarrow>
      handle_message e st raw =
        \<lparr>sent = [error_event (''Message must have '' @ [CHR 0x27] @ ''action'' @ [CHR 0x27] @
                   '' or '' @ [CHR 0x27] @ ''event'' @ [CHR 0x27] @ '' key'') ''parse_error''],
         submitted = [], raised = None, state_after = st\<rparr>) \<and>
   (json_loads e raw = Decoded (JObj msg) \<and>
    (map_of msg ''action'' \<noteq> None \<or> map_of msg ''event'' \<noteq> None) \<longrightarrow>
      (dict_get msg ''action'' \<notin> JStr ` set ACTIONS \<longrightarrow>
         handle_message e st raw =
           \<lparr>sent = [error_event (''Unknown action: '' @ py_str e (dict_get msg ''action''))
                      ''unknown_action''],
            submitted = [], raised = None, state_after = st\<rparr>) \<and>
      (dict_get msg ''action'' = JStr ''get_status'' \<longrightarrow>
         handle_message e st raw = handle_get_status e st) \<and>
      (dict_get msg ''action'' = JStr ''discover_printers'' \<longrightarrow>
         handle_message e st raw = handle_discover_printers e st) \<and>
      (dict_get msg ''action'' = JStr ''print'' \<longrightarrow>
         handle_message e st raw = handle_print e st msg) \<and>
      (dict_get msg ''action'' = JStr ''open_drawer'' \<longrightarrow>
         handle_message e st raw = handle_open_drawer e st msg) \<and>
      (dict_get msg ''action'' = JStr ''test_print'' \<longrightarrow>
         handle_message e st raw = handle_test_print e st msg) \<and>
      (dict_get msg ''action'' = JStr ''send_notification'' \<longrightarrow>
         handle_message e st raw = handle_send_notification e st msg) \<and>
      (dict_get msg ''action'' = JStr ''toggle_keyboard'' \<longrightarrow>
         handle_message e st raw = handle_toggle_keyboard e st msg))"
proof (intro conjI impI)
  assume "json_loads e raw = OtherError m"
  then show "handle_message e st raw =
      \<lparr>sent = [], submitted = [], raised = Some m, state_after = st\<rparr>"
    by (simp add: handle_message_def parse_message_def)
next
  assume "json_loads e raw = OtherValueError m"
  then show "handle_message e st raw =
      \<lparr>sent = [error_event m ''parse_error''],
       submitted = [], raised = None, state_after = st\<rparr>"
    by (simp add: handle_message_def parse_message_def)
next
  assume "json_loads e raw = JSONDecodeError m"
  then show "handle_message e st raw =
      \<lparr>sent = [error_event (''Invalid JSON: '' @ m) ''parse_error''],
       submitted = [], raised = None, state_after = st\<rparr>"
    by (simp add: handle_message_def parse_message_def)
next
  assume "json_loads e raw = Decoded v \<and> \<not> is_object v"
  then show "handle_message e st raw =
      \<lparr>sent = [error_event ''Message must be a JSON object'' ''parse_error''],
       submitted = [], raised = None, state_after = st\<rparr>"
    by (cases v) (simp_all add: handle_message_def parse_message_def)
next
  assume "json_loads e raw = Decoded (JObj msg) \<and> map_of msg ''action'' = None \<and>
          map_of msg ''event'' = None"
  then show "handle_message e st raw =
      \<lparr>sent = [error_event (''Message must have '' @ [CHR 0x27] @ ''action'' @ [CHR 0x27] @
                 '' or '' @ [CHR 0x27] @ ''event'' @ [CHR 0x27] @ '' key'') ''parse_error''],
       submitted = [], raised = None, state_after = st\<rparr>"
    by (simp add: handle_message_def parse_message_def)
next
  assume a: "json_loads e raw = Decoded (JObj msg) \<and>
             (map_of msg ''action'' \<noteq> None \<or> map_of msg ''event'' \<noteq> None)"
  then have p: "parse_message (json_loads e) raw = Inr msg"
    by (intro parse_message_object) simp_all
  {
    assume "dict_get msg ''action'' \<notin> JStr ` set ACTIONS"
    then show "handle_message e st raw =
        \<lparr>sent = [error_event (''Unknown action: '' @ py_str e (dict_get msg ''action''))
                   ''unknown_action''],
         submitted = [], raised = None, state_after = st\<rparr>"
      unfolding action_not_in_ACTIONS by (simp add: handle_message_def p Let_def)
  next
    assume "dict_get msg ''action'' = JStr ''get_status''"
    then show "handle_message e st raw = handle_get_status e st"
      by (simp add: handle_message_def p)
  next
    assume "dict_get msg ''action'' = JStr ''discover_printers''"
    then show "handle_message e st raw = handle_discover_printers e st"
      by (simp add: handle_message_def p)
  next
    assume "dict_get msg ''action'' = JStr ''print''"
    then show "handle_message e st raw = handle_print e st msg"
      by (simp add: handle_message_def p)
  next
    assume "dict_get msg ''action'' = JStr ''open_drawer''"
    then show "handle_message e st raw = handle_open_drawer e st msg"
      by (simp add: handle_message_def p)
  next
    assume "dict_get msg ''action'' = JStr ''test_print''"
    then show "handle_message e st raw = handle_test_print e st msg"
      by (simp add: handle_message_def p)
  next
    assume "dict_get msg ''action'' = JStr ''send_notification''"
    then show "handle_message e st raw = handle_send_notification e st msg"
      by (simp add: handle_message_def p)
  next
    assume "dict_get msg ''action'' = JStr ''toggle_keyboard''"
    then show "handle_message e st raw = handle_toggle_keyboard e st msg"
      by (simp add: handle_message_def p)
  }
qed

lemma websocket_loop_after_parse_error:
  \<open>websocket_loop example_env example_state [''not json'', ''{"action": "get_status"}''] =
     ([error_event ''Invalid JSON: Expecting value: line 1 column 1 (char 0)'' ''parse_error'',
       status_event ''1.0.0'' [] False],
      example_state, [])\<close>
  by (simp add: handle_message_def parse_message_def example_loads dict_get_def
      handle_get_status_def example_fields example_state_def scanner_active_def)

text \<open>
  Claim C8 says that every malformed raw message is answered with a protocol error
  event and that the connection loop goes on. The code does not do so on a text on
  which \<open>json.loads\<close> raises an exception that is not a \<open>ValueError\<close> (a
  \<open>RecursionError\<close>, on a deeply nested text): \<open>parse_message\<close> catches
  \<open>JSONDecodeError\<close> only and \<open>handle_message\<close> catches \<open>ValueError\<close> only, so that no
  event is sent, the exception leaves \<open>handle_message\<close>, and the receive loop ends with
  the later messages unread.
\<close>

theorem handle_message_decoder_exception_escapes:
  assumes "json_loads e raw = OtherError m"
  shows "handle_message e st raw =
           \<lparr>sent = [], submitted = [], raised = Some m, state_after = st\<rparr> \<and>
         websocket_loop e st (raw # rest) = ([], st, rest)"
  using assms by (simp add: handle_message_def parse_message_def)

theorem handle_message_decoder_exception_escapes_witness:
  \<open>handle_message example_env example_state (replicate 100000 (CHR ''['')) =
     \<lparr>sent = [], submitted = [],
      raised = Some ''maximum recursion depth exceeded while decoding a JSON array from a unicode string'',
      state_after = example_state\<rparr> \<and>
   websocket_loop example_env example_state
     [replicate 100000 (CHR ''[''), ''{"action": "get_status"}''] =
     ([], example_state, [''{"action": "get_status"}''])\<close>
  using handle_message_decoder_exception_escapes [OF example_loads(1)] by blast

end
